theory Spec2Isabelle
  imports Main "HOL-Library.Word" "HOL-Library.Char_ord" "HOL-Library.List_Lexorder"
    "HOL-Library.AList"
begin

section \<open>Errors, commands and the script\<close>

text \<open>
  A Go \<open>error\<close> value. \<open>Errorf\<close> is an error built by \<open>fmt.Errorf\<close> in the files
  modelled here and carries its message. The two other constructors are errors handed
  back by code outside these files (the script package, the operating system, a
  library), split by what \<open>os.IsExist\<close> answers on them.
\<close>

datatype error = Errorf string | ErrExist string | ErrOther string

fun Error :: "error \<Rightarrow> string" where
  "Error (Errorf m) = m"
| "Error (ErrExist m) = m"
| "Error (ErrOther m) = m"

fun os_IsExist :: "error \<Rightarrow> bool" where
  "os_IsExist (ErrExist m) = True"
| "os_IsExist e = False"

text \<open>
  \<open>script.Command\<close> is an interface; its dynamic type is the constructor. The struct
  behind each pointer is declared in the script package, which is not among the source
  files: its content is the type parameter \<open>'c\<close>, read only through the package's
  methods.
\<close>

datatype 'c Command =
    AsCommand 'c
  | EnvCommand 'c
  | FromCommand 'c
  | KubeConfigCommand 'c
  | AuthConfigCommand 'c
  | OutputCommand 'c
  | WorkdirCommand 'c
  | CaptureCommand 'c
  | CopyCommand 'c
  | RunCommand 'c
  | KubeGetCommand 'c

record 'c Script =
  Preambles :: "string \<rightharpoonup> 'c Command list"
  Actions :: "'c Command list"

text \<open>
  Modelled from the spec: the directive names of the script package (\<open>script.CmdAs\<close>
  and so on), which section 6 of the specification lists.
\<close>

definition CmdAs :: string where "CmdAs = ''AS''"
definition CmdEnv :: string where "CmdEnv = ''ENV''"
definition CmdFrom :: string where "CmdFrom = ''FROM''"
definition CmdKubeConfig :: string where "CmdKubeConfig = ''KUBECONFIG''"
definition CmdAuthConfig :: string where "CmdAuthConfig = ''AUTHCONFIG''"
definition CmdOutput :: string where "CmdOutput = ''OUTPUT''"
definition CmdWorkDir :: string where "CmdWorkDir = ''WORKDIR''"
definition CmdCapture :: string where "CmdCapture = ''CAPTURE''"
definition CmdCopy :: string where "CmdCopy = ''COPY''"
definition CmdRun :: string where "CmdRun = ''RUN''"
definition CmdKubeGet :: string where "CmdKubeGet = ''KUBEGET''"

lemmas Cmd_defs =
  CmdAs_def CmdEnv_def CmdFrom_def CmdKubeConfig_def CmdAuthConfig_def CmdOutput_def
  CmdWorkDir_def CmdCapture_def CmdCopy_def CmdRun_def CmdKubeGet_def

record CommandMeta =
  Supported :: bool
  MinArgs :: int
  MaxArgs :: int

text \<open>
  What the parser takes from outside its file: the capability table \<open>script.Cmds\<close>, the
  constructors of the script package (line number and raw arguments in, a command or an
  error out), the process's user and group id, and the default values
  \<open>script.Defaults\<close>. None of them is among the source files, so all are parameters.
\<close>

record 'c script_pkg =
  Cmds :: "string \<rightharpoonup> CommandMeta"
  NewAsCommand :: "int \<Rightarrow> string \<Rightarrow> error + 'c"
  NewEnvCommand :: "int \<Rightarrow> string \<Rightarrow> error + 'c"
  NewFromCommand :: "int \<Rightarrow> string \<Rightarrow> error + 'c"
  NewKubeConfigCommand :: "int \<Rightarrow> string \<Rightarrow> error + 'c"
  NewAuthConfigCommand :: "int \<Rightarrow> string \<Rightarrow> error + 'c"
  NewOutputCommand :: "int \<Rightarrow> string \<Rightarrow> error + 'c"
  NewWorkdirCommand :: "int \<Rightarrow> string \<Rightarrow> error + 'c"
  NewCaptureCommand :: "int \<Rightarrow> string \<Rightarrow> error + 'c"
  NewCopyCommand :: "int \<Rightarrow> string \<Rightarrow> error + 'c"
  NewRunCommand :: "int \<Rightarrow> string \<Rightarrow> error + 'c"
  NewKubeGetCommand :: "int \<Rightarrow> string \<Rightarrow> error + 'c"
  Getuid :: int
  Getgid :: int
  Defaults_FromValue :: string
  Defaults_WorkdirValue :: string
  Defaults_OutputValue :: string
  Defaults_KubeConfigValue :: string

section \<open>Library functions on strings\<close>

text \<open>
  Strings are byte lists, as in Go. \<open>strings.TrimSpace\<close> removes leading and trailing
  white space as Unicode defines it: the six ASCII characters, and the code points
  U+0085, U+00A0, U+1680, U+2000 to U+200A, U+2028, U+2029, U+202F, U+205F and U+3000,
  here in their UTF-8 encoding.
\<close>

definition asciiSpace :: "char \<Rightarrow> bool" where
  "asciiSpace c = (c \<in> set [CHR 0x09, CHR 0x0A, CHR 0x0B, CHR 0x0C, CHR 0x0D, CHR 0x20])"

definition unicodeSpaces :: "string list" where
  "unicodeSpaces =
     [[CHR 0xC2, CHR 0x85], [CHR 0xC2, CHR 0xA0], [CHR 0xE1, CHR 0x9A, CHR 0x80]]
     @ map (\<lambda>b. [CHR 0xE2, CHR 0x80, b])
         [CHR 0x80, CHR 0x81, CHR 0x82, CHR 0x83, CHR 0x84, CHR 0x85, CHR 0x86, CHR 0x87,
          CHR 0x88, CHR 0x89, CHR 0x8A, CHR 0xA8, CHR 0xA9, CHR 0xAF]
     @ [[CHR 0xE2, CHR 0x81, CHR 0x9F], [CHR 0xE3, CHR 0x80, CHR 0x80]]"

definition spaceLen :: "string list \<Rightarrow> string \<Rightarrow> nat" where
  "spaceLen seqs s =
     (if s \<noteq> [] \<and> asciiSpace (hd s) then 1
      else (case filter (\<lambda>u. take (length u) s = u) seqs of
              [] \<Rightarrow> 0
            | u # _ \<Rightarrow> length u))"

lemma spaceLen_Nil: "spaceLen seqs [] = 0"
proof (cases "filter (\<lambda>u. take (length u) [] = u) seqs")
  case Nil
  then show ?thesis by (simp add: spaceLen_def)
next
  case (Cons u us)
  then have "u \<in> set (filter (\<lambda>u. take (length u) [] = u) seqs)" by simp
  then have "u = []" by simp
  with Cons show ?thesis by (simp add: spaceLen_def)
qed

function trimLeftWith :: "string list \<Rightarrow> string \<Rightarrow> string" where
  "trimLeftWith seqs s =
     (if spaceLen seqs s = 0 then s else trimLeftWith seqs (drop (spaceLen seqs s) s))"
  by pat_completeness auto
termination
proof (relation "measure (\<lambda>(seqs, s). length s)")
  show "wf (measure (\<lambda>(seqs, s). length s))" by simp
next
  fix seqs :: "string list" and s :: string
  assume n: "spaceLen seqs s \<noteq> 0"
  then have "s \<noteq> []" using spaceLen_Nil by metis
  with n show "((seqs, drop (spaceLen seqs s) s), (seqs, s)) \<in> measure (\<lambda>(seqs, s). length s)"
    by simp
qed

declare trimLeftWith.simps [simp del]

definition TrimSpace :: "string \<Rightarrow> string" where
  "TrimSpace s =
     rev (trimLeftWith (map rev unicodeSpaces) (rev (trimLeftWith unicodeSpaces s)))"

text \<open>
  The regular expression \<open>\s\<close> of Go matches one of tab, newline, form feed, carriage
  return and space (not the vertical tab). \<open>spaceSep.Split(text, 2)\<close> cuts the text at
  the first match, which is one character long, and gives the text itself when nothing
  matches.
\<close>

definition reSpace :: "char \<Rightarrow> bool" where
  "reSpace c = (c \<in> set [CHR 0x09, CHR 0x0A, CHR 0x0C, CHR 0x0D, CHR 0x20])"

definition spaceSep_Split2 :: "string \<Rightarrow> string list" where
  "spaceSep_Split2 text =
     (case dropWhile (\<lambda>c. \<not> reSpace c) text of
        [] \<Rightarrow> [text]
      | _ # rest \<Rightarrow> [takeWhile (\<lambda>c. \<not> reSpace c) text, rest])"

text \<open>The verb \<open>%d\<close> of \<open>fmt\<close>: an integer in decimal.\<close>

fun natDigits :: "nat \<Rightarrow> string" where
  "natDigits n =
     (if n < 10 then [''0123456789'' ! n]
      else natDigits (n div 10) @ [''0123456789'' ! (n mod 10)])"

declare natDigits.simps [simp del]

definition itoa :: "int \<Rightarrow> string" where
  "itoa i = (if i < 0 then CHR ''-'' # natDigits (nat (- i)) else natDigits (nat i))"

section \<open>The parser\<close>

text \<open>
  The body of the \<open>switch\<close> of \<open>Parse\<close>: the constructor of the directive is called
  with the line number and the raw arguments; its error ends the parse; its command
  replaces the directive's entry of \<open>Preambles\<close> (every single-valued directive), is
  appended to the entry (\<open>ENV\<close>) or is appended to \<open>Actions\<close>.
\<close>

definition parseCmd ::
  "'c script_pkg \<Rightarrow> 'c Script \<Rightarrow> int \<Rightarrow> string \<Rightarrow> string \<Rightarrow> error + 'c Script" where
  "parseCmd P scr line cmdName rawArgs =
    (if cmdName = CmdAs then
       (case NewAsCommand P line rawArgs of
          Inl err \<Rightarrow> Inl err
        | Inr cmd \<Rightarrow> Inr (scr\<lparr>Preambles := (Preambles scr)(CmdAs \<mapsto> [AsCommand cmd])\<rparr>))
     else if cmdName = CmdEnv then
       (case NewEnvCommand P line rawArgs of
          Inl err \<Rightarrow> Inl err
        | Inr cmd \<Rightarrow>
            Inr (scr\<lparr>Preambles := (Preambles scr)(CmdEnv \<mapsto>
              (case Preambles scr CmdEnv of None \<Rightarrow> [] | Some cs \<Rightarrow> cs) @ [EnvCommand cmd])\<rparr>))
     else if cmdName = CmdFrom then
       (case NewFromCommand P line rawArgs of
          Inl err \<Rightarrow> Inl err
        | Inr cmd \<Rightarrow> Inr (scr\<lparr>Preambles := (Preambles scr)(CmdFrom \<mapsto> [FromCommand cmd])\<rparr>))
     else if cmdName = CmdKubeConfig then
       (case NewKubeConfigCommand P line rawArgs of
          Inl err \<Rightarrow> Inl err
        | Inr cmd \<Rightarrow>
            Inr (scr\<lparr>Preambles := (Preambles scr)(CmdKubeConfig \<mapsto> [KubeConfigCommand cmd])\<rparr>))
     else if cmdName = CmdAuthConfig then
       (case NewAuthConfigCommand P line rawArgs of
          Inl err \<Rightarrow> Inl err
        | Inr cmd \<Rightarrow>
            Inr (scr\<lparr>Preambles := (Preambles scr)(CmdAuthConfig \<mapsto> [AuthConfigCommand cmd])\<rparr>))
     else if cmdName = CmdOutput then
       (case NewOutputCommand P line rawArgs of
          Inl err \<Rightarrow> Inl err
        | Inr cmd \<Rightarrow> Inr (scr\<lparr>Preambles := (Preambles scr)(CmdOutput \<mapsto> [OutputCommand cmd])\<rparr>))
     else if cmdName = CmdWorkDir then
       (case NewWorkdirCommand P line rawArgs of
          Inl err \<Rightarrow> Inl err
        | Inr cmd \<Rightarrow> Inr (scr\<lparr>Preambles := (Preambles scr)(CmdWorkDir \<mapsto> [WorkdirCommand cmd])\<rparr>))
     else if cmdName = CmdCapture then
       (case NewCaptureCommand P line rawArgs of
          Inl err \<Rightarrow> Inl err
        | Inr cmd \<Rightarrow> Inr (scr\<lparr>Actions := Actions scr @ [CaptureCommand cmd]\<rparr>))
     else if cmdName = CmdCopy then
       (case NewCopyCommand P line rawArgs of
          Inl err \<Rightarrow> Inl err
        | Inr cmd \<Rightarrow> Inr (scr\<lparr>Actions := Actions scr @ [CopyCommand cmd]\<rparr>))
     else if cmdName = CmdRun then
       (case NewRunCommand P line rawArgs of
          Inl err \<Rightarrow> Inl err
        | Inr cmd \<Rightarrow> Inr (scr\<lparr>Actions := Actions scr @ [RunCommand cmd]\<rparr>))
     else if cmdName = CmdKubeGet then
       (case NewKubeGetCommand P line rawArgs of
          Inl err \<Rightarrow> Inl err
        | Inr cmd \<Rightarrow> Inr (scr\<lparr>Actions := Actions scr @ [KubeGetCommand cmd]\<rparr>))
     else Inl (Errorf (cmdName @ '' not supported'')))"

text \<open>
  \<open>script.Cmds[cmdName].Supported\<close>: a name the table does not hold gives the zero
  value, whose flag is false.
\<close>

definition isSupported :: "'c script_pkg \<Rightarrow> string \<Rightarrow> bool" where
  "isSupported P cmdName = (case Cmds P cmdName of None \<Rightarrow> False | Some m \<Rightarrow> Supported m)"

text \<open>
  One pass of the scanning loop on the trimmed text of a line that is not skipped:
  directive name and raw arguments, the capability check, the switch.
\<close>

definition parseLine ::
  "'c script_pkg \<Rightarrow> 'c Script \<Rightarrow> int \<Rightarrow> string \<Rightarrow> error + 'c Script" where
  "parseLine P scr line text =
     (let tokens = spaceSep_Split2 text;
          rawArgs = (if length tokens = 2 then tokens ! 1 else []);
          cmdName = tokens ! 0
      in if \<not> isSupported P cmdName
         then Inl (Errorf (''line '' @ itoa line @ '': '' @ cmdName @ '' unsupported''))
         else parseCmd P scr line cmdName rawArgs)"

text \<open>
  The loop of \<open>Parse\<close> over the lines the scanner delivers, in order.
\<close>

fun parseLines ::
  "'c script_pkg \<Rightarrow> 'c Script \<Rightarrow> int \<Rightarrow> string list \<Rightarrow> error + 'c Script" where
  "parseLines P scr line [] = Inr scr"
| "parseLines P scr line (l # ls) =
     (let text = TrimSpace l
      in if text = [] \<or> text ! 0 = CHR ''#'' then parseLines P scr (line + 1) ls
         else (case parseLine P scr line text of
                 Inl err \<Rightarrow> Inl err
               | Inr scr' \<Rightarrow> parseLines P scr' (line + 1) ls))"

text \<open>
  One block of \<open>enforceDefaults\<close>: a directive that has no entry gets the command its
  constructor builds from the default; a constructor's error ends the resolution.
\<close>

definition defaultFor ::
  "string \<Rightarrow> (error + 'c Command) \<Rightarrow> 'c Script \<Rightarrow> error + 'c Script" where
  "defaultFor k new scr =
     (case Preambles scr k of
        Some cs \<Rightarrow> Inr scr
      | None \<Rightarrow>
          (case new of
             Inl err \<Rightarrow> Inl err
           | Inr cmd \<Rightarrow> Inr (scr\<lparr>Preambles := (Preambles scr)(k \<mapsto> [cmd])\<rparr>)))"

text \<open>
  A Go function returning \<open>(*script.Script, error)\<close> gives a pair here. Where the
  identity default fails, \<open>enforceDefaults\<close> returns the script beside the error; in the
  five other blocks it returns \<open>nil\<close>.
\<close>

definition enforceDefaults ::
  "'c script_pkg \<Rightarrow> 'c Script \<Rightarrow> 'c Script option \<times> error option" where
  "enforceDefaults P scr =
    (case defaultFor CmdAs
            (map_sum id AsCommand
              (NewAsCommand P 0 (''userid:'' @ itoa (Getuid P) @ '' groupid:'' @ itoa (Getgid P))))
            scr of
       Inl err \<Rightarrow> (Some scr, Some err)
     | Inr scr1 \<Rightarrow>
    (case defaultFor CmdFrom
            (map_sum id FromCommand (NewFromCommand P 0 (Defaults_FromValue P))) scr1 of
       Inl err \<Rightarrow> (None, Some err)
     | Inr scr2 \<Rightarrow>
    (case defaultFor CmdAuthConfig
            (map_sum id AuthConfigCommand
              (NewAuthConfigCommand P 0 ''username:${USER} private-key:${HOME}/.ssh/id_rsa''))
            scr2 of
       Inl err \<Rightarrow> (None, Some err)
     | Inr scr3 \<Rightarrow>
    (case defaultFor CmdWorkDir
            (map_sum id WorkdirCommand
              (NewWorkdirCommand P 0 (''path:'' @ Defaults_WorkdirValue P))) scr3 of
       Inl err \<Rightarrow> (None, Some err)
     | Inr scr4 \<Rightarrow>
    (case defaultFor CmdOutput
            (map_sum id OutputCommand
              (NewOutputCommand P 0 (''path:'' @ Defaults_OutputValue P))) scr4 of
       Inl err \<Rightarrow> (None, Some err)
     | Inr scr5 \<Rightarrow>
    (case defaultFor CmdKubeConfig
            (map_sum id KubeConfigCommand
              (NewKubeConfigCommand P 0 (''path:'' @ Defaults_KubeConfigValue P))) scr5 of
       Inl err \<Rightarrow> (None, Some err)
     | Inr scr6 \<Rightarrow> (Some scr6, None)))))))"

text \<open>
  What \<open>Parse\<close> does with the lines the scanner has delivered: the loop from the empty
  script and line number 1, then the defaults.
\<close>

definition parseScript :: "'c script_pkg \<Rightarrow> string list \<Rightarrow> 'c Script option \<times> error option" where
  "parseScript P lines =
     (case parseLines P \<lparr>Preambles = Map.empty, Actions = []\<rparr> 1 lines of
        Inl err \<Rightarrow> (None, Some err)
      | Inr scr \<Rightarrow> enforceDefaults P scr)"

text \<open>
  \<open>bufio.Scanner\<close> with the split function \<open>ScanLines\<close> and its default buffer, on the
  bytes that the reader yields: a line ends at a newline or at the end of the data and
  loses one trailing carriage return; nothing follows a last newline. The buffer holds
  at most \<open>MaxScanTokenSize\<close> bytes, the newline of the line among them: at a line of
  that many bytes or more \<open>Scan\<close> returns false and the scanner keeps the error
  \<open>ErrTooLong\<close>. The result is the list of lines delivered and what
  \<open>lineScanner.Err()\<close> would return. A reader that fails in the middle is the same as
  one that ends there, but for the error kept. The reader is one that reports its end
  in a call of its own, as a file and \<open>strings.NewReader\<close> do; only a last line of
  exactly \<open>MaxScanTokenSize\<close> bytes with no newline depends on that.
\<close>

definition MaxScanTokenSize :: nat where
  "MaxScanTokenSize = 64 * 1024"

definition ErrTooLong :: error where
  "ErrTooLong = ErrOther ''bufio.Scanner: token too long''"

definition dropCR :: "string \<Rightarrow> string" where
  "dropCR data = (if data \<noteq> [] \<and> last data = CHR 0x0D then butlast data else data)"

function Scanner :: "string \<Rightarrow> string list \<times> error option" where
  "Scanner data =
     (if data = [] then ([], None)
      else (let line = takeWhile (\<lambda>c. c \<noteq> CHR 0x0A) data
            in if MaxScanTokenSize \<le> length line then ([], Some ErrTooLong)
               else (case Scanner (drop (Suc (length line)) data) of
                       (lines, err) \<Rightarrow> (dropCR line # lines, err))))"
  by pat_completeness auto
termination
  by (relation "measure length") auto

declare Scanner.simps [simp del]

text \<open>
  \<open>Parse\<close> on the bytes of its reader. The loop ends when \<open>Scan\<close> returns false, and
  \<open>lineScanner.Err()\<close> is never read: the error of the scanner is dropped.
\<close>

definition Parse :: "'c script_pkg \<Rightarrow> string \<Rightarrow> 'c Script option \<times> error option" where
  "Parse P reader = parseScript P (fst (Scanner reader))"

section \<open>Default resolution fills every configuration directive\<close>

text \<open>
  The six configuration directives, which hold one command each. \<open>resolved\<close> says what
  default resolution does to the entry of one of them: an absent entry becomes a list
  of one command, a present entry stays.
\<close>

definition configDirectives :: "string list" where
  "configDirectives = [CmdAs, CmdFrom, CmdAuthConfig, CmdOutput, CmdWorkDir, CmdKubeConfig]"

definition resolved :: "'c Script \<Rightarrow> 'c Script \<Rightarrow> string \<Rightarrow> bool" where
  "resolved scr scr' k =
     (case Preambles scr k of
        None \<Rightarrow> (case Preambles scr' k of Some [cmd] \<Rightarrow> True | _ \<Rightarrow> False)
      | Some cs \<Rightarrow> Preambles scr' k = Some cs)"

lemma defaultFor_key:
  "defaultFor k new scr = Inr scr' \<Longrightarrow> resolved scr scr' k"
  by (auto simp: defaultFor_def resolved_def split: option.splits sum.splits)

lemma defaultFor_other:
  "defaultFor k new scr = Inr scr' \<Longrightarrow> j \<noteq> k \<Longrightarrow> Preambles scr' j = Preambles scr j"
  by (auto simp: defaultFor_def split: option.splits sum.splits)

lemma defaultFor_Actions:
  "defaultFor k new scr = Inr scr' \<Longrightarrow> Actions scr' = Actions scr"
  by (auto simp: defaultFor_def split: option.splits sum.splits)

lemma enforceDefaults_steps:
  assumes "enforceDefaults P scr = (Some scr', None)"
  obtains s1 s2 s3 s4 s5 n1 n2 n3 n4 n5 n6 where
    "defaultFor CmdAs n1 scr = Inr s1" "defaultFor CmdFrom n2 s1 = Inr s2"
    "defaultFor CmdAuthConfig n3 s2 = Inr s3" "defaultFor CmdWorkDir n4 s3 = Inr s4"
    "defaultFor CmdOutput n5 s4 = Inr s5" "defaultFor CmdKubeConfig n6 s5 = Inr scr'"
  using assms unfolding enforceDefaults_def
  by (auto split: sum.splits)

lemma resolved_cong:
  "Preambles a k = Preambles a' k \<Longrightarrow> Preambles b k = Preambles b' k \<Longrightarrow>
   resolved a b k = resolved a' b' k"
  by (simp add: resolved_def split: option.splits)

lemma enforceDefaults_resolved:
  assumes "enforceDefaults P scr = (Some scr', None)" and "k \<in> set configDirectives"
  shows "resolved scr scr' k"
proof -
  from assms(1) obtain s1 s2 s3 s4 s5 n1 n2 n3 n4 n5 n6 where st:
    "defaultFor CmdAs n1 scr = Inr s1" "defaultFor CmdFrom n2 s1 = Inr s2"
    "defaultFor CmdAuthConfig n3 s2 = Inr s3" "defaultFor CmdWorkDir n4 s3 = Inr s4"
    "defaultFor CmdOutput n5 s4 = Inr s5" "defaultFor CmdKubeConfig n6 s5 = Inr scr'"
    by (rule enforceDefaults_steps)
  note key = st[THEN defaultFor_key]
  note oth = st[THEN defaultFor_other]
  from assms(2) consider "k = CmdAs" | "k = CmdFrom" | "k = CmdAuthConfig" | "k = CmdWorkDir"
    | "k = CmdOutput" | "k = CmdKubeConfig"
    by (auto simp: configDirectives_def)
  then show ?thesis
  proof cases
    case 1
    have "Preambles scr' k = Preambles s1 k"
      using oth(2-6)[of k] by (simp add: 1 Cmd_defs)
    with key(1) show ?thesis by (simp add: 1 resolved_def split: option.splits)
  next
    case 2
    have "Preambles scr' k = Preambles s2 k" "Preambles s1 k = Preambles scr k"
      using oth(1,3-6)[of k] by (simp_all add: 2 Cmd_defs)
    with key(2) show ?thesis by (simp add: 2 resolved_def split: option.splits)
  next
    case 3
    have "Preambles scr' k = Preambles s3 k" "Preambles s2 k = Preambles scr k"
      using oth(1-2,4-6)[of k] by (simp_all add: 3 Cmd_defs)
    with key(3) show ?thesis by (simp add: 3 resolved_def split: option.splits)
  next
    case 4
    have "Preambles scr' k = Preambles s4 k" "Preambles s3 k = Preambles scr k"
      using oth(1-3,5-6)[of k] by (simp_all add: 4 Cmd_defs)
    with key(4) show ?thesis by (simp add: 4 resolved_def split: option.splits)
  next
    case 5
    have "Preambles scr' k = Preambles s5 k" "Preambles s4 k = Preambles scr k"
      using oth(1-4,6)[of k] by (simp_all add: 5 Cmd_defs)
    with key(5) show ?thesis by (simp add: 5 resolved_def split: option.splits)
  next
    case 6
    have "Preambles s5 k = Preambles scr k"
      using oth(1-5)[of k] by (simp_all add: 6 Cmd_defs)
    with key(6) show ?thesis by (simp add: 6 resolved_def split: option.splits)
  qed
qed

lemma enforceDefaults_Actions:
  assumes "enforceDefaults P scr = (Some scr', None)"
  shows "Actions scr' = Actions scr"
proof -
  from assms(1) obtain s1 s2 s3 s4 s5 n1 n2 n3 n4 n5 n6 where st:
    "defaultFor CmdAs n1 scr = Inr s1" "defaultFor CmdFrom n2 s1 = Inr s2"
    "defaultFor CmdAuthConfig n3 s2 = Inr s3" "defaultFor CmdWorkDir n4 s3 = Inr s4"
    "defaultFor CmdOutput n5 s4 = Inr s5" "defaultFor CmdKubeConfig n6 s5 = Inr scr'"
    by (rule enforceDefaults_steps)
  from st[THEN defaultFor_Actions] show ?thesis by simp
qed

lemma enforceDefaults_other:
  assumes "enforceDefaults P scr = (Some scr', None)" and "k \<notin> set configDirectives"
  shows "Preambles scr' k = Preambles scr k"
proof -
  from assms(1) obtain s1 s2 s3 s4 s5 n1 n2 n3 n4 n5 n6 where st:
    "defaultFor CmdAs n1 scr = Inr s1" "defaultFor CmdFrom n2 s1 = Inr s2"
    "defaultFor CmdAuthConfig n3 s2 = Inr s3" "defaultFor CmdWorkDir n4 s3 = Inr s4"
    "defaultFor CmdOutput n5 s4 = Inr s5" "defaultFor CmdKubeConfig n6 s5 = Inr scr'"
    by (rule enforceDefaults_steps)
  from st[THEN defaultFor_other, of k] assms(2) show ?thesis
    by (simp add: configDirectives_def)
qed

section \<open>What the parse loop leaves in the script\<close>

text \<open>
  The specification's view of a script text: the directive occurrences, that is the lines
  that are neither blank nor comments, each with its 1-based line number, its directive
  name and its raw arguments; and the command that the directive's constructor builds
  from an occurrence. The parse loop is compared with this view below.
\<close>

definition skipped :: "string \<Rightarrow> bool" where
  "skipped l = (TrimSpace l = [] \<or> TrimSpace l ! 0 = CHR ''#'')"

definition directiveName :: "string \<Rightarrow> string" where
  "directiveName l = spaceSep_Split2 (TrimSpace l) ! 0"

definition directiveArgs :: "string \<Rightarrow> string" where
  "directiveArgs l =
     (let tokens = spaceSep_Split2 (TrimSpace l) in if length tokens = 2 then tokens ! 1 else [])"

fun occurrences :: "int \<Rightarrow> string list \<Rightarrow> (int \<times> string \<times> string) list" where
  "occurrences line [] = []"
| "occurrences line (l # ls) =
     (if skipped l then occurrences (line + 1) ls
      else (line, directiveName l, directiveArgs l) # occurrences (line + 1) ls)"

definition construct :: "'c script_pkg \<Rightarrow> int \<times> string \<times> string \<Rightarrow> error + 'c Command" where
  "construct P occ =
     (case occ of (line, name, rawArgs) \<Rightarrow>
        if name = CmdAs then map_sum id AsCommand (NewAsCommand P line rawArgs)
        else if name = CmdEnv then map_sum id EnvCommand (NewEnvCommand P line rawArgs)
        else if name = CmdFrom then map_sum id FromCommand (NewFromCommand P line rawArgs)
        else if name = CmdKubeConfig
          then map_sum id KubeConfigCommand (NewKubeConfigCommand P line rawArgs)
        else if name = CmdAuthConfig
          then map_sum id AuthConfigCommand (NewAuthConfigCommand P line rawArgs)
        else if name = CmdOutput then map_sum id OutputCommand (NewOutputCommand P line rawArgs)
        else if name = CmdWorkDir then map_sum id WorkdirCommand (NewWorkdirCommand P line rawArgs)
        else if name = CmdCapture then map_sum id CaptureCommand (NewCaptureCommand P line rawArgs)
        else if name = CmdCopy then map_sum id CopyCommand (NewCopyCommand P line rawArgs)
        else if name = CmdRun then map_sum id RunCommand (NewRunCommand P line rawArgs)
        else if name = CmdKubeGet then map_sum id KubeGetCommand (NewKubeGetCommand P line rawArgs)
        else Inl (Errorf (name @ '' not supported'')))"

definition actionDirectives :: "string list" where
  "actionDirectives = [CmdCapture, CmdCopy, CmdRun, CmdKubeGet]"

definition envOf :: "'c Script \<Rightarrow> 'c Command list" where
  "envOf scr = (case Preambles scr CmdEnv of None \<Rightarrow> [] | Some cs \<Rightarrow> cs)"

definition occOf :: "string \<Rightarrow> (int \<times> string \<times> string) list \<Rightarrow> (int \<times> string \<times> string) list" where
  "occOf k occs = filter (\<lambda>occ. fst (snd occ) = k) occs"

lemma parseCmd_effect:
  assumes "parseCmd P scr line name rawArgs = Inr scr'"
  shows "\<exists>c. construct P (line, name, rawArgs) = Inr c
     \<and> Actions scr' = (if name \<in> set actionDirectives then Actions scr @ [c] else Actions scr)
     \<and> Preambles scr' =
         (if name \<in> set configDirectives then (Preambles scr)(name \<mapsto> [c])
          else if name = CmdEnv then (Preambles scr)(CmdEnv \<mapsto> envOf scr @ [c])
          else Preambles scr)"
  using assms
  unfolding parseCmd_def construct_def envOf_def actionDirectives_def configDirectives_def
  by (auto simp: Cmd_defs split: if_splits sum.splits)

lemma parseLine_effect:
  assumes "parseLine P scr line (TrimSpace l) = Inr scr'"
  shows "\<exists>c. construct P (line, directiveName l, directiveArgs l) = Inr c
     \<and> Actions scr' =
         (if directiveName l \<in> set actionDirectives then Actions scr @ [c] else Actions scr)
     \<and> Preambles scr' =
         (if directiveName l \<in> set configDirectives then (Preambles scr)(directiveName l \<mapsto> [c])
          else if directiveName l = CmdEnv then (Preambles scr)(CmdEnv \<mapsto> envOf scr @ [c])
          else Preambles scr)"
proof -
  from assms have "parseCmd P scr line (directiveName l) (directiveArgs l) = Inr scr'"
    by (simp add: parseLine_def directiveName_def directiveArgs_def Let_def split: if_splits)
  then show ?thesis by (rule parseCmd_effect)
qed

lemma parseLines_Cons:
  "parseLines P scr n (l # ls) =
     (if skipped l then parseLines P scr (n + 1) ls
      else (case parseLine P scr n (TrimSpace l) of
              Inl err \<Rightarrow> Inl err
            | Inr scr1 \<Rightarrow> parseLines P scr1 (n + 1) ls))"
  by (simp add: skipped_def Let_def)

declare parseLines.simps(2) [simp del]

lemma parseLines_Actions:
  "parseLines P scr n lines = Inr scr' \<Longrightarrow>
   map Inr (Actions scr') =
     map Inr (Actions scr)
     @ map (construct P)
         (filter (\<lambda>occ. fst (snd occ) \<in> set actionDirectives) (occurrences n lines))"
proof (induction lines arbitrary: scr n)
  case Nil
  then show ?case by simp
next
  case (Cons l ls)
  show ?case
  proof (cases "skipped l")
    case True
    with Cons.prems have "parseLines P scr (n + 1) ls = Inr scr'"
      by (simp add: parseLines_Cons)
    from Cons.IH[OF this] True show ?thesis by simp
  next
    case False
    with Cons.prems obtain scr1 where
      1: "parseLine P scr n (TrimSpace l) = Inr scr1" and
      2: "parseLines P scr1 (n + 1) ls = Inr scr'"
      by (auto simp: parseLines_Cons split: sum.splits)
    from parseLine_effect[OF 1] obtain c where
      c: "construct P (n, directiveName l, directiveArgs l) = Inr c" and
      a: "Actions scr1 =
           (if directiveName l \<in> set actionDirectives then Actions scr @ [c] else Actions scr)"
      by blast
    from Cons.IH[OF 2] False c a show ?thesis by simp
  qed
qed

lemma parseLines_Env:
  "parseLines P scr n lines = Inr scr' \<Longrightarrow>
   map Inr (envOf scr') =
     map Inr (envOf scr) @ map (construct P) (occOf CmdEnv (occurrences n lines))"
proof (induction lines arbitrary: scr n)
  case Nil
  then show ?case by (simp add: occOf_def)
next
  case (Cons l ls)
  show ?case
  proof (cases "skipped l")
    case True
    with Cons.prems have "parseLines P scr (n + 1) ls = Inr scr'"
      by (simp add: parseLines_Cons)
    from Cons.IH[OF this] True show ?thesis by (simp add: occOf_def)
  next
    case False
    with Cons.prems obtain scr1 where
      1: "parseLine P scr n (TrimSpace l) = Inr scr1" and
      2: "parseLines P scr1 (n + 1) ls = Inr scr'"
      by (auto simp: parseLines_Cons split: sum.splits)
    from parseLine_effect[OF 1] obtain c where
      c: "construct P (n, directiveName l, directiveArgs l) = Inr c" and
      p: "Preambles scr1 =
         (if directiveName l \<in> set configDirectives then (Preambles scr)(directiveName l \<mapsto> [c])
          else if directiveName l = CmdEnv then (Preambles scr)(CmdEnv \<mapsto> envOf scr @ [c])
          else Preambles scr)"
      by blast
    have e: "envOf scr1 = (if directiveName l = CmdEnv then envOf scr @ [c] else envOf scr)"
      using p by (auto simp: envOf_def configDirectives_def Cmd_defs)
    from Cons.IH[OF 2] False c e show ?thesis by (auto simp: occOf_def)
  qed
qed

lemma parseLines_single:
  "parseLines P scr n lines = Inr scr' \<Longrightarrow> k \<in> set configDirectives \<Longrightarrow>
   (if occOf k (occurrences n lines) = [] then Preambles scr' k = Preambles scr k
    else \<exists>c. construct P (last (occOf k (occurrences n lines))) = Inr c
           \<and> Preambles scr' k = Some [c])"
proof (induction lines arbitrary: scr n)
  case Nil
  then show ?case by (simp add: occOf_def)
next
  case (Cons l ls)
  show ?case
  proof (cases "skipped l")
    case True
    with Cons.prems have "parseLines P scr (n + 1) ls = Inr scr'"
      by (simp add: parseLines_Cons)
    from Cons.IH[OF this Cons.prems(2)] True show ?thesis
      by (auto simp: occOf_def split: if_splits)
  next
    case False
    with Cons.prems obtain scr1 where
      1: "parseLine P scr n (TrimSpace l) = Inr scr1" and
      2: "parseLines P scr1 (n + 1) ls = Inr scr'"
      by (auto simp: parseLines_Cons split: sum.splits)
    from parseLine_effect[OF 1] obtain c where
      c: "construct P (n, directiveName l, directiveArgs l) = Inr c" and
      p: "Preambles scr1 =
         (if directiveName l \<in> set configDirectives then (Preambles scr)(directiveName l \<mapsto> [c])
          else if directiveName l = CmdEnv then (Preambles scr)(CmdEnv \<mapsto> envOf scr @ [c])
          else Preambles scr)"
      by blast
    have k: "k \<noteq> CmdEnv" using Cons.prems(2) by (auto simp: configDirectives_def Cmd_defs)
    have e: "Preambles scr1 k = (if directiveName l = k then Some [c] else Preambles scr k)"
      using p k Cons.prems(2) by auto
    from Cons.IH[OF 2 Cons.prems(2)] False c e show ?thesis
      by (auto simp: occOf_def split: if_splits)
  qed
qed

lemma parseLines_other:
  "parseLines P scr n lines = Inr scr' \<Longrightarrow> k \<notin> set configDirectives \<Longrightarrow> k \<noteq> CmdEnv \<Longrightarrow>
   Preambles scr' k = Preambles scr k"
proof (induction lines arbitrary: scr n)
  case Nil
  then show ?case by simp
next
  case (Cons l ls)
  show ?case
  proof (cases "skipped l")
    case True
    with Cons.prems have "parseLines P scr (n + 1) ls = Inr scr'"
      by (simp add: parseLines_Cons)
    from Cons.IH[OF this Cons.prems(2,3)] show ?thesis .
  next
    case False
    with Cons.prems obtain scr1 where
      1: "parseLine P scr n (TrimSpace l) = Inr scr1" and
      2: "parseLines P scr1 (n + 1) ls = Inr scr'"
      by (auto simp: parseLines_Cons split: sum.splits)
    from parseLine_effect[OF 1] Cons.prems(2,3) have "Preambles scr1 k = Preambles scr k"
      by (auto split: if_splits)
    with Cons.IH[OF 2 Cons.prems(2,3)] show ?thesis by simp
  qed
qed

lemma parseLines_append:
  "parseLines P scr n (pre @ rest) =
     (case parseLines P scr n pre of
        Inl err \<Rightarrow> Inl err
      | Inr scr1 \<Rightarrow> parseLines P scr1 (n + int (length pre)) rest)"
proof (induction pre arbitrary: scr n)
  case Nil
  then show ?case by simp
next
  case (Cons l ls)
  show ?case
    by (simp add: parseLines_Cons Cons.IH add.assoc split: sum.splits)
qed

section \<open>A sample script package\<close>

text \<open>
  A small instance of the script package, on which the definitions are evaluated: a
  command keeps its line number and raw arguments, and a constructor refuses empty
  arguments.
\<close>

definition sampleCmds :: "string \<rightharpoonup> CommandMeta" where
  "sampleCmds name =
     (if name \<in> set (configDirectives @ CmdEnv # actionDirectives)
      then Some \<lparr>Supported = True, MinArgs = 0, MaxArgs = - 1\<rparr> else None)"

definition sampleNew :: "int \<Rightarrow> string \<Rightarrow> error + (int \<times> string)" where
  "sampleNew line rawArgs =
     (if rawArgs = [] then Inl (ErrOther ''must have at least 1 argument(s)'')
      else Inr (line, rawArgs))"

definition samplePkg :: "(int \<times> string) script_pkg" where
  "samplePkg =
     \<lparr>Cmds = sampleCmds,
      NewAsCommand = sampleNew, NewEnvCommand = sampleNew, NewFromCommand = sampleNew,
      NewKubeConfigCommand = sampleNew, NewAuthConfigCommand = sampleNew,
      NewOutputCommand = sampleNew, NewWorkdirCommand = sampleNew,
      NewCaptureCommand = sampleNew, NewCopyCommand = sampleNew, NewRunCommand = sampleNew,
      NewKubeGetCommand = sampleNew,
      Getuid = 1000, Getgid = 100,
      Defaults_FromValue = ''local'', Defaults_WorkdirValue = ''/tmp/crashdir'',
      Defaults_OutputValue = ''out.tar.gz'', Defaults_KubeConfigValue = ''/kube/config''\<rparr>"

lemma samplePkg_sel [simp]:
  "Cmds samplePkg = sampleCmds"
  "NewAsCommand samplePkg = sampleNew" "NewEnvCommand samplePkg = sampleNew"
  "NewFromCommand samplePkg = sampleNew" "NewKubeConfigCommand samplePkg = sampleNew"
  "NewAuthConfigCommand samplePkg = sampleNew" "NewOutputCommand samplePkg = sampleNew"
  "NewWorkdirCommand samplePkg = sampleNew" "NewCaptureCommand samplePkg = sampleNew"
  "NewCopyCommand samplePkg = sampleNew" "NewRunCommand samplePkg = sampleNew"
  "NewKubeGetCommand samplePkg = sampleNew"
  by (simp_all add: samplePkg_def)

lemma sampleCmds_supported:
  "isSupported samplePkg name = (name \<in> set (configDirectives @ CmdEnv # actionDirectives))"
  by (simp add: isSupported_def sampleCmds_def)

definition sampleLines :: "string list" where
  "sampleLines =
     [''AS userid:1'', ''ENV a=b'', ''CAPTURE df -h'', '''', ''  # note'', ''AS userid:2'',
      ''ENV c=d'', ''COPY /var/log'']"


text \<open>
  Claim C2. When \<open>enforceDefaults\<close> returns a script and no error, the \<open>Preambles\<close> mapping
  of that script has an entry for each of the six configuration directives (identity,
  source list, auth config, output path, working directory, cluster config); a directive
  that was absent holds exactly one command, the default, and a directive that was
  present keeps its entry.
\<close>

theorem enforceDefaults_fills_configuration:
  assumes "enforceDefaults P scr = (Some scr', None)"
  shows "set configDirectives \<subseteq> dom (Preambles scr')
     \<and> (\<forall>k \<in> set configDirectives.
          (Preambles scr k = None \<longrightarrow> (\<exists>cmd. Preambles scr' k = Some [cmd]))
        \<and> (\<forall>cs. Preambles scr k = Some cs \<longrightarrow> Preambles scr' k = Some cs))"
proof -
  have r: "resolved scr scr' k" if "k \<in> set configDirectives" for k
    using assms that by (rule enforceDefaults_resolved)
  have "k \<in> dom (Preambles scr')" if "k \<in> set configDirectives" for k
    using r[OF that] by (auto simp: resolved_def split: option.splits list.splits)
  moreover have "(Preambles scr k = None \<longrightarrow> (\<exists>cmd. Preambles scr' k = Some [cmd]))
        \<and> (\<forall>cs. Preambles scr k = Some cs \<longrightarrow> Preambles scr' k = Some cs)"
    if "k \<in> set configDirectives" for k
    using r[OF that] by (auto simp: resolved_def split: option.splits list.splits)
  ultimately show ?thesis by blast
qed

theorem enforceDefaults_fills_configuration_witness:
  "\<exists>scr'. enforceDefaults samplePkg
            \<lparr>Preambles = [CmdWorkDir \<mapsto> [WorkdirCommand (1, ''path:/tmp/w'')]], Actions = []\<rparr>
          = (Some scr', None)
      \<and> dom (Preambles scr') = set configDirectives
      \<and> Preambles scr' CmdWorkDir = Some [WorkdirCommand (1, ''path:/tmp/w'')]
      \<and> (\<exists>cmd. Preambles scr' CmdAs = Some [cmd])"
proof -
  define s0 :: "(int \<times> string) Script" where
    "s0 = \<lparr>Preambles = [CmdWorkDir \<mapsto> [WorkdirCommand (1, ''path:/tmp/w'')]], Actions = []\<rparr>"
  have e: "snd (enforceDefaults samplePkg s0) = None"
    unfolding s0_def by code_simp
  have "\<not> Option.is_none (fst (enforceDefaults samplePkg s0))"
    unfolding s0_def by code_simp
  with e obtain scr' where h: "enforceDefaults samplePkg s0 = (Some scr', None)"
    by (cases "enforceDefaults samplePkg s0") (auto simp: Option.is_none_def)
  have o: "dom (Preambles scr') \<subseteq> set configDirectives"
  proof
    fix k assume k: "k \<in> dom (Preambles scr')"
    show "k \<in> set configDirectives"
    proof (rule ccontr)
      assume n: "k \<notin> set configDirectives"
      from enforceDefaults_other[OF h n] k have "k \<in> dom (Preambles s0)"
        by (metis domD domI)
      with n show False by (auto simp: s0_def configDirectives_def split: if_splits)
    qed
  qed
  have w: "Preambles s0 CmdWorkDir = Some [WorkdirCommand (1, ''path:/tmp/w'')]"
    and a: "Preambles s0 CmdAs = None"
    by (simp_all add: s0_def Cmd_defs)
  from enforceDefaults_fills_configuration[OF h] o w a
  have "dom (Preambles scr') = set configDirectives
      \<and> Preambles scr' CmdWorkDir = Some [WorkdirCommand (1, ''path:/tmp/w'')]
      \<and> (\<exists>cmd. Preambles scr' CmdAs = Some [cmd])"
    by (auto simp: configDirectives_def)
  with h show ?thesis unfolding s0_def by blast
qed

text \<open>
  The merge policy over the lines that the scanner delivers. In every script built from
  them, each single-valued preamble directive that occurs in these lines holds exactly
  the command built from its last occurrence; the \<open>ENV\<close> entry holds the commands built
  from all \<open>ENV\<close> occurrences, in order; and \<open>Actions\<close> holds the commands built from
  the action directives, in line order.
\<close>

theorem parseScript_last_preamble_all_env_ordered_actions:
  assumes "parseScript P lines = (Some scr, None)"
  shows "(\<forall>k \<in> set configDirectives.
            occOf k (occurrences 1 lines) \<noteq> [] \<longrightarrow>
            (\<exists>c. construct P (last (occOf k (occurrences 1 lines))) = Inr c
                 \<and> Preambles scr k = Some [c]))
     \<and> map (construct P) (occOf CmdEnv (occurrences 1 lines)) = map Inr (envOf scr)
     \<and> map (construct P)
           (filter (\<lambda>occ. fst (snd occ) \<in> set actionDirectives) (occurrences 1 lines))
         = map Inr (Actions scr)"
proof -
  let ?s0 = "\<lparr>Preambles = Map.empty, Actions = []\<rparr> :: 'a Script"
  from assms obtain scr0 where
    p: "parseLines P ?s0 1 lines = Inr scr0" and d: "enforceDefaults P scr0 = (Some scr, None)"
    by (auto simp: parseScript_def split: sum.splits)
  have single: "\<exists>c. construct P (last (occOf k (occurrences 1 lines))) = Inr c
                 \<and> Preambles scr k = Some [c]"
    if k: "k \<in> set configDirectives" and ne: "occOf k (occurrences 1 lines) \<noteq> []" for k
  proof -
    from parseLines_single[OF p k] ne obtain c where
      c: "construct P (last (occOf k (occurrences 1 lines))) = Inr c" and
      s: "Preambles scr0 k = Some [c]"
      by auto
    from enforceDefaults_resolved[OF d k] s have "Preambles scr k = Some [c]"
      by (simp add: resolved_def)
    with c show ?thesis by blast
  qed
  have "CmdEnv \<notin> set configDirectives" by (simp add: configDirectives_def Cmd_defs)
  from enforceDefaults_other[OF d this] have "envOf scr = envOf scr0"
    by (simp add: envOf_def)
  with parseLines_Env[OF p]
  have env: "map (construct P) (occOf CmdEnv (occurrences 1 lines)) = map Inr (envOf scr)"
    by (simp add: envOf_def)
  from parseLines_Actions[OF p] enforceDefaults_Actions[OF d]
  have act: "map (construct P)
           (filter (\<lambda>occ. fst (snd occ) \<in> set actionDirectives) (occurrences 1 lines))
         = map Inr (Actions scr)"
    by simp
  from single env act show ?thesis by blast
qed

theorem parseScript_last_preamble_all_env_ordered_actions_witness:
  "\<exists>scr. parseScript samplePkg sampleLines = (Some scr, None)
      \<and> Preambles scr CmdAs = Some [AsCommand (6, ''userid:2'')]
      \<and> envOf scr = [EnvCommand (2, ''a=b''), EnvCommand (7, ''c=d'')]
      \<and> Actions scr = [CaptureCommand (3, ''df -h''), CopyCommand (8, ''/var/log'')]"
proof -
  have e: "snd (parseScript samplePkg sampleLines) = None"
    by code_simp
  have "\<not> Option.is_none (fst (parseScript samplePkg sampleLines))"
    by code_simp
  with e obtain scr where h: "parseScript samplePkg sampleLines = (Some scr, None)"
    by (cases "parseScript samplePkg sampleLines") (auto simp: Option.is_none_def)
  have o: "occurrences 1 sampleLines =
     [(1, ''AS'', ''userid:1''), (2, ''ENV'', ''a=b''), (3, ''CAPTURE'', ''df -h''),
      (6, ''AS'', ''userid:2''), (7, ''ENV'', ''c=d''), (8, ''COPY'', ''/var/log'')]"
    by code_simp
  have c: "construct samplePkg (6, ''AS'', ''userid:2'') = Inr (AsCommand (6, ''userid:2''))"
    "construct samplePkg (2, ''ENV'', ''a=b'') = Inr (EnvCommand (2, ''a=b''))"
    "construct samplePkg (7, ''ENV'', ''c=d'') = Inr (EnvCommand (7, ''c=d''))"
    "construct samplePkg (3, ''CAPTURE'', ''df -h'') = Inr (CaptureCommand (3, ''df -h''))"
    "construct samplePkg (8, ''COPY'', ''/var/log'') = Inr (CopyCommand (8, ''/var/log''))"
    by (simp_all add: construct_def sampleNew_def Cmd_defs)
  have k: "CmdAs \<in> set configDirectives" by (simp add: configDirectives_def)
  from parseScript_last_preamble_all_env_ordered_actions[OF h] k
  have "Preambles scr CmdAs = Some [AsCommand (6, ''userid:2'')]
      \<and> map Inr (envOf scr) = [Inr (EnvCommand (2, ''a=b'')), Inr (EnvCommand (7, ''c=d''))]
      \<and> map Inr (Actions scr) = [Inr (CaptureCommand (3, ''df -h'')), Inr (CopyCommand (8, ''/var/log''))]"
    unfolding o by (auto simp: occOf_def actionDirectives_def Cmd_defs c)
  then have "Preambles scr CmdAs = Some [AsCommand (6, ''userid:2'')]
      \<and> envOf scr = [EnvCommand (2, ''a=b''), EnvCommand (7, ''c=d'')]
      \<and> Actions scr = [CaptureCommand (3, ''df -h''), CopyCommand (8, ''/var/log'')]"
    by (auto simp: map_eq_Cons_conv)
  with h show ?thesis by blast
qed

text \<open>
  The first error over the lines that the scanner delivers. After a prefix \<open>pre\<close> of
  lines that parse, a blank line or comment line leaves the script as it is and advances
  the line count; a line that is not skipped and whose directive name is unsupported
  gives no script and the error \<open>line N: NAME unsupported\<close> with the line's 1-based
  number \<open>N\<close>, whatever follows; and so does any other error of that line.
\<close>

theorem parseScript_stops_at_first_error:
  assumes "parseLines P \<lparr>Preambles = Map.empty, Actions = []\<rparr> 1 pre = Inr scr"
  shows "(skipped l \<longrightarrow>
            parseLines P \<lparr>Preambles = Map.empty, Actions = []\<rparr> 1 (pre @ l # post)
            = parseLines P scr (int (length pre) + 2) post)
       \<and> (\<not> skipped l \<longrightarrow> \<not> isSupported P (directiveName l) \<longrightarrow>
            parseScript P (pre @ l # post)
            = (None, Some (Errorf (''line '' @ itoa (int (length pre) + 1) @ '': ''
                                    @ directiveName l @ '' unsupported''))))
       \<and> (\<forall>err. \<not> skipped l \<longrightarrow>
            parseLine P scr (int (length pre) + 1) (TrimSpace l) = Inl err \<longrightarrow>
            parseScript P (pre @ l # post) = (None, Some err))"
proof -
  let ?s0 = "\<lparr>Preambles = Map.empty, Actions = []\<rparr> :: 'a Script"
  have split: "parseLines P ?s0 1 (pre @ l # post)
      = parseLines P scr (int (length pre) + 1) (l # post)"
    using assms by (simp add: parseLines_append add.commute)
  have skip: "parseLines P ?s0 1 (pre @ l # post) = parseLines P scr (int (length pre) + 2) post"
    if "skipped l"
    using that split by (simp add: parseLines_Cons ac_simps)
  have fail: "parseScript P (pre @ l # post) = (None, Some err)"
    if "\<not> skipped l" and "parseLine P scr (int (length pre) + 1) (TrimSpace l) = Inl err" for err
    using that split by (simp add: parseScript_def parseLines_Cons)
  have "parseLine P scr (int (length pre) + 1) (TrimSpace l)
      = Inl (Errorf (''line '' @ itoa (int (length pre) + 1) @ '': ''
                                    @ directiveName l @ '' unsupported''))"
    if "\<not> isSupported P (directiveName l)"
    using that by (simp add: parseLine_def directiveName_def Let_def)
  with fail skip show ?thesis by blast
qed

theorem parseScript_stops_at_first_error_witness:
  "parseScript samplePkg [''AS userid:1'', ''BOGUS x'', ''ENV'']
     = (None, Some (Errorf ''line 2: BOGUS unsupported''))
   \<and> parseScript samplePkg [''AS userid:1'', ''ENV'', ''BOGUS x'']
     = (None, Some (ErrOther ''must have at least 1 argument(s)''))
   \<and> parseLines samplePkg \<lparr>Preambles = Map.empty, Actions = []\<rparr> 1
        [''AS userid:1'', ''  # note'', ''BOGUS x'']
     = Inl (Errorf ''line 3: BOGUS unsupported'')"
proof -
  let ?s0 = "\<lparr>Preambles = Map.empty, Actions = []\<rparr> :: (int \<times> string) Script"
  let ?s1 = "\<lparr>Preambles = [CmdAs \<mapsto> [AsCommand (1, ''userid:1'')]], Actions = []\<rparr>
               :: (int \<times> string) Script"
  have t: "TrimSpace ''AS userid:1'' = ''AS userid:1''" "TrimSpace ''BOGUS x'' = ''BOGUS x''"
    "TrimSpace ''ENV'' = ''ENV''" "TrimSpace ''  # note'' = ''# note''"
    by code_simp+
  have sp: "spaceSep_Split2 ''AS userid:1'' = [''AS'', ''userid:1'']"
    "spaceSep_Split2 ''BOGUS x'' = [''BOGUS'', ''x'']" "spaceSep_Split2 ''ENV'' = [''ENV'']"
    by code_simp+
  have sup: "isSupported samplePkg ''AS''" "\<not> isSupported samplePkg ''BOGUS''"
    "isSupported samplePkg ''ENV''"
    by (simp_all add: sampleCmds_supported configDirectives_def actionDirectives_def Cmd_defs)
  have pre: "parseLines samplePkg ?s0 1 [''AS userid:1''] = Inr ?s1"
    by (simp add: parseLines_Cons skipped_def t parseLine_def Let_def sp sup parseCmd_def
        Cmd_defs sampleNew_def)
  have sk: "\<not> skipped ''BOGUS x''" "\<not> skipped ''ENV''" "skipped ''  # note''"
    by (simp_all add: skipped_def t)
  have d: "directiveName ''BOGUS x'' = ''BOGUS''"
    by (simp add: directiveName_def t sp)
  have i: "itoa 2 = ''2''" "itoa 3 = ''3''" by code_simp+
  have env: "parseLine samplePkg ?s1 2 (TrimSpace ''ENV'')
      = Inl (ErrOther ''must have at least 1 argument(s)'')"
    by (simp add: t parseLine_def Let_def sp sup parseCmd_def Cmd_defs sampleNew_def)
  have bogus: "parseLines samplePkg ?s1 3 [''BOGUS x''] = Inl (Errorf ''line 3: BOGUS unsupported'')"
    by (simp add: parseLines_Cons sk t parseLine_def Let_def sp sup i)
  from parseScript_stops_at_first_error[OF pre, of "''BOGUS x''" "[''ENV'']"]
       parseScript_stops_at_first_error[OF pre, of "''ENV''" "[''BOGUS x'']"]
       parseScript_stops_at_first_error[OF pre, of "''  # note''" "[''BOGUS x'']"]
  show ?thesis
    by (simp add: sk sup d i env bogus)
qed

section \<open>The scanner's silent stop\<close>

lemma takeWhile_no_newline:
  "CHR 0x0A \<notin> set l \<Longrightarrow>
   takeWhile (\<lambda>c. c \<noteq> CHR 0x0A) (l @ rest) = l @ takeWhile (\<lambda>c. c \<noteq> CHR 0x0A) rest"
  by (induction l) auto

lemma Scanner_line:
  assumes "CHR 0x0A \<notin> set l" and "length l < MaxScanTokenSize"
  shows "Scanner (l @ CHR 0x0A # rest)
     = (case Scanner rest of (lines, err) \<Rightarrow> (dropCR l # lines, err))"
proof -
  have t: "takeWhile (\<lambda>c. c \<noteq> CHR 0x0A) (l @ CHR 0x0A # rest) = l"
    using assms(1) by (simp add: takeWhile_no_newline)
  show ?thesis
    using assms(2) by (subst Scanner.simps) (simp add: t Let_def)
qed

lemma Scanner_too_long:
  assumes "CHR 0x0A \<notin> set l" and "MaxScanTokenSize \<le> length l"
  shows "Scanner (l @ rest) = ([], Some ErrTooLong)"
proof -
  have "takeWhile (\<lambda>c. c \<noteq> CHR 0x0A) (l @ rest) = l @ takeWhile (\<lambda>c. c \<noteq> CHR 0x0A) rest"
    using assms(1) by (rule takeWhile_no_newline)
  then have t: "MaxScanTokenSize \<le> length (takeWhile (\<lambda>c. c \<noteq> CHR 0x0A) (l @ rest))"
    using assms(2) by simp
  have "l @ rest \<noteq> []" using assms(2) by (auto simp: MaxScanTokenSize_def)
  then show ?thesis
    using t by (subst Scanner.simps) (simp add: Let_def)
qed

text \<open>
  A text whose lines are all shorter than the buffer is delivered whole, and \<open>Parse\<close> is
  then the parse of its lines.
\<close>

lemma Scanner_short_lines:
  assumes "\<forall>l \<in> set ls. CHR 0x0A \<notin> set l \<and> length l < MaxScanTokenSize"
  shows "Scanner (concat (map (\<lambda>l. l @ [CHR 0x0A]) ls)) = (map dropCR ls, None)"
  using assms by (induction ls) (simp_all add: Scanner.simps[of "[]"] Scanner_line)

lemma Parse_short_lines:
  assumes "\<forall>l \<in> set ls. CHR 0x0A \<notin> set l \<and> length l < MaxScanTokenSize"
  shows "Parse P (concat (map (\<lambda>l. l @ [CHR 0x0A]) ls)) = parseScript P (map dropCR ls)"
  by (simp add: Parse_def Scanner_short_lines[OF assms])

text \<open>
  A comment line of 70001 bytes, and two script texts that start with it: one goes on
  with an unsupported directive, the other with a \<open>WORKDIR\<close>, an \<open>ENV\<close> and a \<open>CAPTURE\<close>
  line. Beside each, the same text with a short comment as its first line.
\<close>

definition overlongComment :: string where
  "overlongComment = CHR ''#'' # replicate 70000 (CHR ''x'')"

definition unsupportedAfterComment :: string where
  "unsupportedAfterComment = overlongComment @ CHR 0x0A # ''BOGUS x'' @ [CHR 0x0A]"

definition unsupportedAfterShortComment :: string where
  "unsupportedAfterShortComment = ''# x'' @ CHR 0x0A # ''BOGUS x'' @ [CHR 0x0A]"

definition directivesAfterComment :: string where
  "directivesAfterComment =
     overlongComment @ CHR 0x0A # ''WORKDIR path:/tmp/w'' @ CHR 0x0A #
     ''ENV a=b'' @ CHR 0x0A # ''CAPTURE df -h'' @ [CHR 0x0A]"

definition directivesAfterShortComment :: string where
  "directivesAfterShortComment =
     ''# x'' @ CHR 0x0A # ''WORKDIR path:/tmp/w'' @ CHR 0x0A #
     ''ENV a=b'' @ CHR 0x0A # ''CAPTURE df -h'' @ [CHR 0x0A]"

lemma overlongComment:
  "CHR 0x0A \<notin> set overlongComment" "MaxScanTokenSize \<le> length overlongComment"
  by (simp_all add: overlongComment_def MaxScanTokenSize_def)

lemma TrimSpace_comment:
  "TrimSpace (CHR ''#'' # replicate n (CHR ''x'')) = CHR ''#'' # replicate n (CHR ''x'')"
proof -
  have 1: "spaceLen unicodeSpaces (CHR ''#'' # replicate n (CHR ''x'')) = 0"
    by (simp add: spaceLen_def unicodeSpaces_def asciiSpace_def)
  have 2: "spaceLen (map rev unicodeSpaces) (replicate n (CHR ''x'') @ [CHR ''#'']) = 0"
    by (cases n) (simp_all add: spaceLen_def unicodeSpaces_def asciiSpace_def)
  show ?thesis
    unfolding TrimSpace_def
    by (subst trimLeftWith.simps, simp only: 1 if_True, simp, subst trimLeftWith.simps, simp add: 2)
qed

lemma skipped_overlongComment: "skipped overlongComment"
  by (simp add: skipped_def overlongComment_def TrimSpace_comment)

lemma Scanner_overlongComment: "Scanner (overlongComment @ rest) = ([], Some ErrTooLong)"
  by (rule Scanner_too_long[OF overlongComment])

text \<open>
  Claim C9 at a text of two lines, a comment of 70001 bytes and \<open>BOGUS x\<close>: the
  scanner stops at the first line with \<open>ErrTooLong\<close>, which \<open>Parse\<close> never reads, so
  \<open>Parse\<close> returns a script and no error, and the unsupported directive of line 2, the
  first line that is neither blank nor a comment, is not reported. With a short comment
  as its first line the same text gives no script and \<open>line 2: BOGUS unsupported\<close>.
\<close>

theorem Parse_misses_unsupported_after_overlong_line:
  "snd (Parse samplePkg unsupportedAfterComment) = None
   \<and> \<not> Option.is_none (fst (Parse samplePkg unsupportedAfterComment))
   \<and> snd (Scanner unsupportedAfterComment) = Some ErrTooLong
   \<and> skipped overlongComment
   \<and> Parse samplePkg unsupportedAfterShortComment
       = (None, Some (Errorf ''line 2: BOGUS unsupported''))"
proof -
  have s: "Scanner unsupportedAfterComment = ([], Some ErrTooLong)"
    unfolding unsupportedAfterComment_def by (rule Scanner_overlongComment)
  have 1: "snd (parseScript samplePkg []) = None"
    by code_simp
  have 2: "\<not> Option.is_none (fst (parseScript samplePkg []))"
    by code_simp
  have "unsupportedAfterShortComment
      = concat (map (\<lambda>l. l @ [CHR 0x0A]) [''# x'', ''BOGUS x''])"
    by (simp add: unsupportedAfterShortComment_def)
  moreover have "Parse samplePkg (concat (map (\<lambda>l. l @ [CHR 0x0A]) [''# x'', ''BOGUS x'']))
      = parseScript samplePkg (map dropCR [''# x'', ''BOGUS x''])"
    by (rule Parse_short_lines) (simp add: MaxScanTokenSize_def)
  moreover have "fst (parseScript samplePkg (map dropCR [''# x'', ''BOGUS x''])) = None"
    "snd (parseScript samplePkg (map dropCR [''# x'', ''BOGUS x'']))
       = Some (Errorf ''line 2: BOGUS unsupported'')"
    by code_simp+
  ultimately have 3: "Parse samplePkg unsupportedAfterShortComment
       = (None, Some (Errorf ''line 2: BOGUS unsupported''))"
    by (simp only: prod_eq_iff fst_conv snd_conv)
  from 1 2 3 skipped_overlongComment show ?thesis by (simp add: Parse_def s)
qed

text \<open>
  Claim C3 at a text of four lines, a comment of 70001 bytes, \<open>WORKDIR path:/tmp/w\<close>,
  \<open>ENV a=b\<close> and \<open>CAPTURE df -h\<close>: \<open>Parse\<close> returns no error and a script whose
  \<open>WORKDIR\<close> entry is the default, not the command of the directive's last occurrence on
  line 2, and which has no \<open>ENV\<close> command and no action; the three directives are lost.
  With a short comment as its first line the same text gives the script that holds the
  three commands.
\<close>

theorem Parse_drops_directives_after_overlong_line:
  "snd (Parse samplePkg directivesAfterComment) = None
   \<and> \<not> Option.is_none (fst (Parse samplePkg directivesAfterComment))
   \<and> Preambles (the (fst (Parse samplePkg directivesAfterComment))) CmdWorkDir
       = Some [WorkdirCommand (0, ''path:/tmp/crashdir'')]
   \<and> envOf (the (fst (Parse samplePkg directivesAfterComment))) = []
   \<and> Actions (the (fst (Parse samplePkg directivesAfterComment))) = []
   \<and> snd (Scanner directivesAfterComment) = Some ErrTooLong
   \<and> skipped overlongComment
   \<and> snd (Parse samplePkg directivesAfterShortComment) = None
   \<and> \<not> Option.is_none (fst (Parse samplePkg directivesAfterShortComment))
   \<and> Preambles (the (fst (Parse samplePkg directivesAfterShortComment))) CmdWorkDir
       = Some [WorkdirCommand (2, ''path:/tmp/w'')]
   \<and> envOf (the (fst (Parse samplePkg directivesAfterShortComment))) = [EnvCommand (3, ''a=b'')]
   \<and> Actions (the (fst (Parse samplePkg directivesAfterShortComment)))
       = [CaptureCommand (4, ''df -h'')]"
proof -
  have s: "Scanner directivesAfterComment = ([], Some ErrTooLong)"
    unfolding directivesAfterComment_def by (rule Scanner_overlongComment)
  have 1: "snd (parseScript samplePkg []) = None"
    "\<not> Option.is_none (fst (parseScript samplePkg []))"
    "Preambles (the (fst (parseScript samplePkg []))) CmdWorkDir
       = Some [WorkdirCommand (0, ''path:/tmp/crashdir'')]"
    "envOf (the (fst (parseScript samplePkg []))) = []"
    "Actions (the (fst (parseScript samplePkg []))) = []"
    by code_simp+
  let ?ls = "[''# x'', ''WORKDIR path:/tmp/w'', ''ENV a=b'', ''CAPTURE df -h'']"
  have e: "directivesAfterShortComment = concat (map (\<lambda>l. l @ [CHR 0x0A]) ?ls)"
    by (simp add: directivesAfterShortComment_def)
  have p: "Parse samplePkg (concat (map (\<lambda>l. l @ [CHR 0x0A]) ?ls))
      = parseScript samplePkg (map dropCR ?ls)"
    by (rule Parse_short_lines) (simp add: MaxScanTokenSize_def)
  have 2: "snd (parseScript samplePkg (map dropCR ?ls)) = None"
    "\<not> Option.is_none (fst (parseScript samplePkg (map dropCR ?ls)))"
    "Preambles (the (fst (parseScript samplePkg (map dropCR ?ls)))) CmdWorkDir
       = Some [WorkdirCommand (2, ''path:/tmp/w'')]"
    "envOf (the (fst (parseScript samplePkg (map dropCR ?ls)))) = [EnvCommand (3, ''a=b'')]"
    "Actions (the (fst (parseScript samplePkg (map dropCR ?ls)))) = [CaptureCommand (4, ''df -h'')]"
    by code_simp+
  show ?thesis
    unfolding e p using 1 2 skipped_overlongComment by (simp add: Parse_def s)
qed

section \<open>Library functions on paths\<close>

text \<open>
  \<open>path/filepath\<close> on a Unix system: the separator is \<open>/\<close> and there are no volume
  names. \<open>Clean\<close> drops empty and \<open>.\<close> elements, resolves an inner \<open>..\<close> against the
  element before it, drops a \<open>..\<close> at the root, and gives \<open>.\<close> for an empty result.
\<close>

fun splitOn :: "char \<Rightarrow> string \<Rightarrow> string list" where
  "splitOn c [] = [[]]"
| "splitOn c (x # xs) =
     (if x = c then [] # splitOn c xs
      else (case splitOn c xs of [] \<Rightarrow> [[x]] | y # ys \<Rightarrow> (x # y) # ys))"

fun joinWith :: "string \<Rightarrow> string list \<Rightarrow> string" where
  "joinWith sep [] = []"
| "joinWith sep [x] = x"
| "joinWith sep (x # y # ys) = x @ sep @ joinWith sep (y # ys)"

definition cleanStep :: "bool \<Rightarrow> string list \<Rightarrow> string \<Rightarrow> string list" where
  "cleanStep rooted out elem =
     (if elem = [] \<or> elem = ''.'' then out
      else if elem = ''..'' then
        (if out \<noteq> [] \<and> last out \<noteq> ''..'' then butlast out
         else if rooted then out
         else out @ [''..''])
      else out @ [elem])"

definition filepath_Clean :: "string \<Rightarrow> string" where
  "filepath_Clean path =
     (if path = [] then ''.''
      else (let rooted = (hd path = CHR ''/'');
                out = joinWith ''/'' (foldl (cleanStep rooted) [] (splitOn CHR ''/'' path))
            in if rooted then CHR ''/'' # out else if out = [] then ''.'' else out))"

fun filepath_Join :: "string list \<Rightarrow> string" where
  "filepath_Join [] = []"
| "filepath_Join (e # es) =
     (if e = [] then filepath_Join es else filepath_Clean (joinWith ''/'' (e # es)))"

definition filepath_Base :: "string \<Rightarrow> string" where
  "filepath_Base path =
     (if path = [] then ''.''
      else (let p = rev (dropWhile (\<lambda>c. c = CHR ''/'') (rev path))
            in if p = [] then ''/'' else rev (takeWhile (\<lambda>c. c \<noteq> CHR ''/'') (rev p))))"

definition strings_HasPrefix :: "string \<Rightarrow> string \<Rightarrow> bool" where
  "strings_HasPrefix s prefix = (take (length prefix) s = prefix)"

text \<open>
  The loop of \<open>Rel\<close> that steps over the leading elements on which base and target
  agree. It returns the base element it stopped at (empty when one of the two paths ran
  out), and what is left of base and target from that element on.
\<close>

function relLoop :: "string \<Rightarrow> string \<Rightarrow> string \<times> string \<times> string" where
  "relLoop base targ =
     (if base = [] \<or> targ = [] then ([], base, targ)
      else (let be = takeWhile (\<lambda>c. c \<noteq> CHR ''/'') base;
                te = takeWhile (\<lambda>c. c \<noteq> CHR ''/'') targ
            in if te \<noteq> be then (be, base, targ)
               else relLoop (drop (Suc (length be)) base) (drop (Suc (length te)) targ)))"
  by pat_completeness auto
termination
  by (relation "measure (\<lambda>(base, targ). length base)") auto

declare relLoop.simps [simp del]

definition relError :: "string \<Rightarrow> string \<Rightarrow> error" where
  "relError basepath targpath =
     ErrOther (''Rel: can'' @ [CHR 0x27] @ ''t make '' @ targpath @ '' relative to '' @ basepath)"

definition filepath_Rel :: "string \<Rightarrow> string \<Rightarrow> error + string" where
  "filepath_Rel basepath targpath =
     (let base = filepath_Clean basepath; targ = filepath_Clean targpath
      in if targ = base then Inr ''.''
         else (let base = (if base = ''.'' then [] else base)
               in if (base \<noteq> [] \<and> hd base = CHR ''/'') \<noteq> (targ \<noteq> [] \<and> hd targ = CHR ''/'')
                  then Inl (relError basepath targpath)
                  else (case relLoop base targ of
                          (belem, brest, trest) \<Rightarrow>
                            if belem = ''..'' then Inl (relError basepath targpath)
                            else if brest \<noteq> [] then
                              Inr (''..''
                                   @ concat (replicate (length (filter (\<lambda>c. c = CHR ''/'') brest)) ''/..'')
                                   @ (if trest \<noteq> [] then CHR ''/'' # trest else []))
                            else Inr trest)))"


section \<open>The executor\<close>

text \<open>
  The methods of the script package's commands that the executor calls. They are not
  among the source files and are parameters; \<open>GetCredentials\<close> gives the numeric user
  and group id or an error.
\<close>

record 'c script_methods =
  Sources :: "'c \<Rightarrow> string list"
  GetCredentials :: "'c \<Rightarrow> error + int \<times> int"
  Dir :: "'c \<Rightarrow> string"
  Envs :: "'c \<Rightarrow> string list"
  Args :: "'c \<Rightarrow> string list"
  Name :: "'c \<Rightarrow> string"
  GetCliString :: "'c \<Rightarrow> string"
  GetParsedCli :: "'c \<Rightarrow> string \<times> string list"

datatype FileMode = ModeDir | ModeRegular | ModeOther

record FileInfo =
  Mode :: FileMode
  Size :: int

definition IsDir :: "FileMode \<Rightarrow> bool" where "IsDir m = (m = ModeDir)"
definition IsRegular :: "FileMode \<Rightarrow> bool" where "IsRegular m = (m = ModeRegular)"

text \<open>
  What the executor calls outside its file, as functions on a state of the world
  \<open>'w\<close>: the operating system and library calls, the error level of the logger, and
  the two functions \<open>CliRun\<close> and \<open>flatCmd\<close> of its own package, which are not among the
  source files. \<open>'h\<close> is what can be read or written: an open file, or the reader that
  \<open>CliRun\<close> returns. \<open>filepath_Walk\<close> takes the callback; the \<open>FileInfo\<close> it passes means
  nothing when it passes an error. Messages of the levels below \<open>Error\<close> are left out.
\<close>

record ('w, 'h) sys =
  os_MkdirAll :: "string \<Rightarrow> 'w \<Rightarrow> error option \<times> 'w"
  filepath_Walk ::
    "string \<Rightarrow> (string \<Rightarrow> FileInfo \<Rightarrow> error option \<Rightarrow> 'w \<Rightarrow> error option \<times> 'w) \<Rightarrow> 'w
      \<Rightarrow> error option \<times> 'w"
  os_Open :: "string \<Rightarrow> 'w \<Rightarrow> (error + 'h) \<times> 'w"
  os_Create :: "string \<Rightarrow> 'w \<Rightarrow> (error + 'h) \<times> 'w"
  io_Copy :: "'h \<Rightarrow> 'h \<Rightarrow> 'w \<Rightarrow> (int \<times> error option) \<times> 'w"
  Close :: "'h \<Rightarrow> 'w \<Rightarrow> error option \<times> 'w"
  logrus_Error :: "string \<Rightarrow> 'w \<Rightarrow> 'w"
  CliRun :: "32 word \<Rightarrow> 32 word \<Rightarrow> string list \<Rightarrow> string \<Rightarrow> string list \<Rightarrow> 'w \<Rightarrow> (error + 'h) \<times> 'w"
  flatCmd :: "string \<Rightarrow> string"

text \<open>
  A run of \<open>Execute\<close> ends by returning (an error or \<open>nil\<close>) or by a run-time panic:
  an index out of range, or a failed type assertion.
\<close>

datatype panic = IndexOutOfRange | TypeAssertion

datatype outcome = Returned "error option" | Panicked panic

fun assertFrom :: "'c Command \<Rightarrow> panic + 'c" where
  "assertFrom (FromCommand c) = Inr c"
| "assertFrom _ = Inl TypeAssertion"

fun assertAs :: "'c Command \<Rightarrow> panic + 'c" where
  "assertAs (AsCommand c) = Inr c"
| "assertAs _ = Inl TypeAssertion"

fun assertWorkdir :: "'c Command \<Rightarrow> panic + 'c" where
  "assertWorkdir (WorkdirCommand c) = Inr c"
| "assertWorkdir _ = Inl TypeAssertion"

text \<open>
  The three set-up blocks of \<open>Execute\<close>: the map lookup with its \<open>ok\<close> test, then
  element \<open>0\<close> of the list under the type assertion.
\<close>

definition preamble0 ::
  "('c Command \<Rightarrow> panic + 'c) \<Rightarrow> string \<Rightarrow> 'c Script \<Rightarrow> outcome + 'c" where
  "preamble0 assert k s =
     (case Preambles s k of
        None \<Rightarrow> Inl (Returned (Some (Errorf (''Script missing valid '' @ k))))
      | Some cmds \<Rightarrow>
          (case cmds of
             [] \<Rightarrow> Inl (Panicked IndexOutOfRange)
           | c # _ \<Rightarrow> (case assert c of Inl p \<Rightarrow> Inl (Panicked p) | Inr x \<Rightarrow> Inr x)))"

text \<open>\<open>os.MkdirAll\<close> under the test \<open>err != nil && !os.IsExist(err)\<close>.\<close>

definition mkdirAll :: "('w, 'h) sys \<Rightarrow> string \<Rightarrow> 'w \<Rightarrow> error option \<times> 'w" where
  "mkdirAll X path w =
     (case os_MkdirAll X path w of
        (None, w') \<Rightarrow> (None, w')
      | (Some err, w') \<Rightarrow> if \<not> os_IsExist err then (Some err, w') else (None, w'))"

fun collectEnv :: "'c script_methods \<Rightarrow> 'c Command list \<Rightarrow> string list \<Rightarrow> panic + string list" where
  "collectEnv M [] envPairs = Inr envPairs"
| "collectEnv M (EnvCommand env # envCmds) envPairs = collectEnv M envCmds (envPairs @ Envs M env)"
| "collectEnv M (_ # envCmds) envPairs = Inl TypeAssertion"

text \<open>
  The callback of the walk. The message of its two own errors formats the method value
  \<open>cmd.Name\<close>, which prints as a function; its address is left out here. The deferred
  \<open>srcFile.Close()\<close> runs on every path after the file was opened.
\<close>

definition walkFn ::
  "('w, 'h) sys \<Rightarrow> string \<Rightarrow> string \<Rightarrow> FileInfo \<Rightarrow> error option \<Rightarrow> 'w \<Rightarrow> error option \<times> 'w" where
  "walkFn X workdir file finfo err w =
    (case err of
       Some e \<Rightarrow> (Some e, w)
     | None \<Rightarrow>
        (let subpath = filepath_Join [workdir, filepath_Base file]
         in if IsDir (Mode finfo) then mkdirAll X subpath w
            else if IsRegular (Mode finfo) then
              (case os_Open X file w of
                 (Inl err, w1) \<Rightarrow> (Some err, w1)
               | (Inr srcFile, w1) \<Rightarrow>
                   (case
                      (case os_Create X subpath w1 of
                         (Inl err, w2) \<Rightarrow> (Some err, w2)
                       | (Inr desFile, w2) \<Rightarrow>
                           (case io_Copy X desFile srcFile w2 of
                              ((n, err), w3) \<Rightarrow>
                                (case Close X desFile w3 of
                                   (Some closeErr, w4) \<Rightarrow> (Some closeErr, w4)
                                 | (None, w4) \<Rightarrow>
                                     if err \<noteq> None then (err, w4)
                                     else if n \<noteq> Size finfo
                                       then (Some (Errorf (''%!s(func() string) did not complet for '' @ file)), w4)
                                     else (None, w4))))
                    of (result, w5) \<Rightarrow> (result, snd (Close X srcFile w5))))
            else (Some (Errorf (''%!s(func() string) unknown file type for '' @ file)), w)))"

text \<open>
  The test on one argument of a \<open>COPY\<close> action: \<open>filepath.Rel\<close> gives a path from
  the working directory to the argument, and that path does not start with the two
  characters \<open>..\<close>.
\<close>

definition relativeToWorkdir :: "string \<Rightarrow> string \<Rightarrow> bool" where
  "relativeToWorkdir workdir path =
     (case filepath_Rel workdir path of
        Inl err \<Rightarrow> False
      | Inr relPath \<Rightarrow> \<not> strings_HasPrefix relPath ''..'')"

text \<open>One argument of a \<open>COPY\<close> action: the body of the loop over \<open>cmd.Args()\<close>.\<close>

definition copyPath ::
  "'c script_methods \<Rightarrow> ('w, 'h) sys \<Rightarrow> string \<Rightarrow> 'c \<Rightarrow> string \<Rightarrow> 'w \<Rightarrow> 'w" where
  "copyPath M X workdir cmd path w =
     (if relativeToWorkdir workdir path
      then logrus_Error X
             (Name M cmd @ '' path '' @ path @ '' cannot be relative to workdir '' @ workdir) w
      else (case filepath_Walk X path (walkFn X workdir) w of
              (None, w') \<Rightarrow> w'
            | (Some err, w') \<Rightarrow> logrus_Error X (Error err) w'))"

fun copyPaths ::
  "'c script_methods \<Rightarrow> ('w, 'h) sys \<Rightarrow> string \<Rightarrow> 'c \<Rightarrow> string list \<Rightarrow> 'w \<Rightarrow> 'w" where
  "copyPaths M X workdir cmd [] w = w"
| "copyPaths M X workdir cmd (path # paths) w =
     copyPaths M X workdir cmd paths (copyPath M X workdir cmd path w)"

definition writeFile :: "('w, 'h) sys \<Rightarrow> 'h \<Rightarrow> string \<Rightarrow> 'w \<Rightarrow> error option \<times> 'w" where
  "writeFile X source filePath w =
     (case os_Create X filePath w of
        (Inl err, w1) \<Rightarrow> (Some err, w1)
      | (Inr file, w1) \<Rightarrow>
          (case io_Copy X file source w1 of
             ((n, err), w2) \<Rightarrow> (err, snd (Close X file w2))))"

text \<open>The run-time context of the action loop: credentials, environment, working directory.\<close>

record execCtx =
  asUid :: int
  asGid :: int
  envPairs :: "string list"
  workdirPath :: string

text \<open>
  A \<open>CAPTURE\<close> action: the call of \<open>CliRun\<close>, the name of the output file, and the
  action as a whole.
\<close>

definition cliRun ::
  "'c script_methods \<Rightarrow> ('w, 'h) sys \<Rightarrow> execCtx \<Rightarrow> 'c \<Rightarrow> 'w \<Rightarrow> (error + 'h) \<times> 'w" where
  "cliRun M X ctx cmd w =
     (case GetParsedCli M cmd of
        (cliCmd, cliArgs) \<Rightarrow>
          CliRun X (word_of_int (asUid ctx)) (word_of_int (asGid ctx)) (envPairs ctx)
            cliCmd cliArgs w)"

definition captureFile :: "'c script_methods \<Rightarrow> ('w, 'h) sys \<Rightarrow> execCtx \<Rightarrow> 'c \<Rightarrow> string" where
  "captureFile M X ctx cmd =
     (let cmdStr = GetCliString M cmd; fileName = flatCmd X cmdStr @ ''.txt''
      in filepath_Join [workdirPath ctx, fileName])"

definition capture ::
  "'c script_methods \<Rightarrow> ('w, 'h) sys \<Rightarrow> execCtx \<Rightarrow> 'c \<Rightarrow> 'w \<Rightarrow> error option \<times> 'w" where
  "capture M X ctx cmd w =
     (case cliRun M X ctx cmd w of
        (Inl err, w1) \<Rightarrow> (Some err, w1)
      | (Inr cmdReader, w1) \<Rightarrow> writeFile X cmdReader (captureFile M X ctx cmd) w1)"

fun execAction ::
  "'c script_methods \<Rightarrow> ('w, 'h) sys \<Rightarrow> execCtx \<Rightarrow> 'c Command \<Rightarrow> 'w \<Rightarrow> error option \<times> 'w" where
  "execAction M X ctx (CopyCommand cmd) w = (None, copyPaths M X (workdirPath ctx) cmd (Args M cmd) w)"
| "execAction M X ctx (CaptureCommand cmd) w = capture M X ctx cmd w"
| "execAction M X ctx _ w = (None, w)"

fun execActions ::
  "'c script_methods \<Rightarrow> ('w, 'h) sys \<Rightarrow> execCtx \<Rightarrow> 'c Command list \<Rightarrow> 'w \<Rightarrow> error option \<times> 'w" where
  "execActions M X ctx [] w = (None, w)"
| "execActions M X ctx (action # actions) w =
     (case execAction M X ctx action w of
        (Some err, w') \<Rightarrow> (Some err, w')
      | (None, w') \<Rightarrow> execActions M X ctx actions w')"

fun forSources ::
  "'c script_methods \<Rightarrow> ('w, 'h) sys \<Rightarrow> execCtx \<Rightarrow> 'c Command list \<Rightarrow> string list \<Rightarrow> 'w
    \<Rightarrow> error option \<times> 'w" where
  "forSources M X ctx actions [] w = (None, w)"
| "forSources M X ctx actions (fromSrc # sources) w =
     (case execActions M X ctx actions w of
        (Some err, w') \<Rightarrow> (Some err, w')
      | (None, w') \<Rightarrow> forSources M X ctx actions sources w')"

text \<open>
  \<open>Execute\<close> up to its loops: the \<open>FROM\<close>, \<open>AS\<close> and \<open>WORKDIR\<close> blocks, the creation
  of the working directory and the collection of the environment. The left side is a
  run that ends there.
\<close>

definition setUp ::
  "'c script_methods \<Rightarrow> ('w, 'h) sys \<Rightarrow> 'c Script \<Rightarrow> 'w \<Rightarrow> outcome \<times> 'w + execCtx \<times> 'c \<times> 'w" where
  "setUp M X s w =
    (case preamble0 assertFrom CmdFrom s of
       Inl out \<Rightarrow> Inl (out, w)
     | Inr fromCmd \<Rightarrow>
    (case preamble0 assertAs CmdAs s of
       Inl out \<Rightarrow> Inl (out, w)
     | Inr asCmd \<Rightarrow>
    (case GetCredentials M asCmd of
       Inl err \<Rightarrow> Inl (Returned (Some err), w)
     | Inr (uid, gid) \<Rightarrow>
    (case preamble0 assertWorkdir CmdWorkDir s of
       Inl out \<Rightarrow> Inl (out, w)
     | Inr workdirCmd \<Rightarrow>
    (case mkdirAll X (Dir M workdirCmd) w of
       (Some err, w1) \<Rightarrow> Inl (Returned (Some err), w1)
     | (None, w1) \<Rightarrow>
    (case collectEnv M (envOf s) [] of
       Inl p \<Rightarrow> Inl (Panicked p, w1)
     | Inr envs \<Rightarrow>
         Inr (\<lparr>asUid = uid, asGid = gid, envPairs = envs, workdirPath = Dir M workdirCmd\<rparr>,
              fromCmd, w1)))))))"

definition Execute ::
  "'c script_methods \<Rightarrow> ('w, 'h) sys \<Rightarrow> 'c Script \<Rightarrow> 'w \<Rightarrow> outcome \<times> 'w" where
  "Execute M X s w =
     (case setUp M X s w of
        Inl ended \<Rightarrow> ended
      | Inr (ctx, fromCmd, w1) \<Rightarrow>
          (case forSources M X ctx (Actions s) (Sources M fromCmd) w1 of
             (err, w2) \<Rightarrow> (Returned err, w2)))"

section \<open>The entries of a parsed script\<close>

text \<open>
  The directive a command belongs to, by its dynamic type. Every entry of a parsed
  script holds commands of its own directive, so the type assertions of the executor
  hold on it.
\<close>

fun directive :: "'c Command \<Rightarrow> string" where
  "directive (AsCommand c) = CmdAs"
| "directive (EnvCommand c) = CmdEnv"
| "directive (FromCommand c) = CmdFrom"
| "directive (KubeConfigCommand c) = CmdKubeConfig"
| "directive (AuthConfigCommand c) = CmdAuthConfig"
| "directive (OutputCommand c) = CmdOutput"
| "directive (WorkdirCommand c) = CmdWorkDir"
| "directive (CaptureCommand c) = CmdCapture"
| "directive (CopyCommand c) = CmdCopy"
| "directive (RunCommand c) = CmdRun"
| "directive (KubeGetCommand c) = CmdKubeGet"

lemma map_sum_id_Inr: "map_sum id C x = Inr c \<longleftrightarrow> (\<exists>y. x = Inr y \<and> c = C y)"
  by (cases x) auto

lemma construct_directive:
  "construct P (n, k, rawArgs) = Inr c \<Longrightarrow> directive c = k"
  by (auto simp: construct_def map_sum_id_Inr split: if_splits)

lemma defaultFor_typed:
  "defaultFor k (map_sum id C x) scr = Inr scr' \<Longrightarrow> Preambles scr k = None \<Longrightarrow>
   \<exists>y. Preambles scr' k = Some [C y]"
  by (auto simp: defaultFor_def map_sum_id_Inr split: sum.splits)

lemma enforceDefaults_typed_steps:
  assumes "enforceDefaults P scr = (Some scr', None)"
  obtains s1 s2 s3 s4 s5 x1 x2 x3 x4 x5 x6 where
    "defaultFor CmdAs (map_sum id AsCommand x1) scr = Inr s1"
    "defaultFor CmdFrom (map_sum id FromCommand x2) s1 = Inr s2"
    "defaultFor CmdAuthConfig (map_sum id AuthConfigCommand x3) s2 = Inr s3"
    "defaultFor CmdWorkDir (map_sum id WorkdirCommand x4) s3 = Inr s4"
    "defaultFor CmdOutput (map_sum id OutputCommand x5) s4 = Inr s5"
    "defaultFor CmdKubeConfig (map_sum id KubeConfigCommand x6) s5 = Inr scr'"
  using assms unfolding enforceDefaults_def
  by (auto split: sum.splits)

lemma enforceDefaults_typed:
  assumes "enforceDefaults P scr = (Some scr', None)" and "k \<in> set configDirectives"
    and "Preambles scr k = None"
  shows "\<exists>c. Preambles scr' k = Some [c] \<and> directive c = k"
proof -
  from assms(1) obtain s1 s2 s3 s4 s5 x1 x2 x3 x4 x5 x6 where st:
    "defaultFor CmdAs (map_sum id AsCommand x1) scr = Inr s1"
    "defaultFor CmdFrom (map_sum id FromCommand x2) s1 = Inr s2"
    "defaultFor CmdAuthConfig (map_sum id AuthConfigCommand x3) s2 = Inr s3"
    "defaultFor CmdWorkDir (map_sum id WorkdirCommand x4) s3 = Inr s4"
    "defaultFor CmdOutput (map_sum id OutputCommand x5) s4 = Inr s5"
    "defaultFor CmdKubeConfig (map_sum id KubeConfigCommand x6) s5 = Inr scr'"
    by (rule enforceDefaults_typed_steps)
  note oth = st[THEN defaultFor_other]
  from assms(2) consider "k = CmdAs" | "k = CmdFrom" | "k = CmdAuthConfig" | "k = CmdWorkDir"
    | "k = CmdOutput" | "k = CmdKubeConfig"
    by (auto simp: configDirectives_def)
  then show ?thesis
  proof cases
    case 1
    have "Preambles scr' k = Preambles s1 k"
      using oth(2-6)[of k] by (simp add: 1 Cmd_defs)
    with defaultFor_typed[OF st(1)] assms(3) show ?thesis by (auto simp: 1)
  next
    case 2
    have "Preambles scr' k = Preambles s2 k" "Preambles s1 k = Preambles scr k"
      using oth(1,3-6)[of k] by (simp_all add: 2 Cmd_defs)
    with defaultFor_typed[OF st(2)] assms(3) show ?thesis by (auto simp: 2)
  next
    case 3
    have "Preambles scr' k = Preambles s3 k" "Preambles s2 k = Preambles scr k"
      using oth(1-2,4-6)[of k] by (simp_all add: 3 Cmd_defs)
    with defaultFor_typed[OF st(3)] assms(3) show ?thesis by (auto simp: 3)
  next
    case 4
    have "Preambles scr' k = Preambles s4 k" "Preambles s3 k = Preambles scr k"
      using oth(1-3,5-6)[of k] by (simp_all add: 4 Cmd_defs)
    with defaultFor_typed[OF st(4)] assms(3) show ?thesis by (auto simp: 4)
  next
    case 5
    have "Preambles scr' k = Preambles s5 k" "Preambles s4 k = Preambles scr k"
      using oth(1-4,6)[of k] by (simp_all add: 5 Cmd_defs)
    with defaultFor_typed[OF st(5)] assms(3) show ?thesis by (auto simp: 5)
  next
    case 6
    have "Preambles s5 k = Preambles scr k"
      using oth(1-5)[of k] by (simp_all add: 6 Cmd_defs)
    with defaultFor_typed[OF st(6)] assms(3) show ?thesis by (auto simp: 6)
  qed
qed

lemma Parse_typed:
  assumes "parseScript P lines = (Some s, None)" and k: "k \<in> set configDirectives"
  shows "\<exists>c. Preambles s k = Some [c] \<and> directive c = k"
proof -
  let ?s0 = "\<lparr>Preambles = Map.empty, Actions = []\<rparr> :: 'a Script"
  from assms obtain scr0 where
    p: "parseLines P ?s0 1 lines = Inr scr0" and d: "enforceDefaults P scr0 = (Some s, None)"
    by (auto simp: parseScript_def split: sum.splits)
  show ?thesis
  proof (cases "occOf k (occurrences 1 lines) = []")
    case True
    with parseLines_single[OF p k] have "Preambles scr0 k = None" by simp
    with d k show ?thesis by (rule enforceDefaults_typed)
  next
    case False
    with parseLines_single[OF p k] obtain c where
      c: "construct P (last (occOf k (occurrences 1 lines))) = Inr c" and
      s: "Preambles scr0 k = Some [c]"
      by auto
    from False have "last (occOf k (occurrences 1 lines)) \<in> set (occOf k (occurrences 1 lines))"
      by (rule last_in_set)
    then have "fst (snd (last (occOf k (occurrences 1 lines)))) = k"
      by (simp add: occOf_def)
    with c have "directive c = k"
      by (cases "last (occOf k (occurrences 1 lines))") (auto dest: construct_directive)
    moreover from enforceDefaults_resolved[OF d k] s have "Preambles s k = Some [c]"
      by (simp add: resolved_def)
    ultimately show ?thesis by blast
  qed
qed

lemma Parse_env_typed:
  assumes "parseScript P lines = (Some s, None)" and c: "c \<in> set (envOf s)"
  shows "directive c = CmdEnv"
proof -
  let ?s0 = "\<lparr>Preambles = Map.empty, Actions = []\<rparr> :: 'a Script"
  from assms obtain scr0 where
    p: "parseLines P ?s0 1 lines = Inr scr0" and d: "enforceDefaults P scr0 = (Some s, None)"
    by (auto simp: parseScript_def split: sum.splits)
  have "CmdEnv \<notin> set configDirectives" by (simp add: configDirectives_def Cmd_defs)
  from enforceDefaults_other[OF d this] have "envOf s = envOf scr0"
    by (simp add: envOf_def)
  with parseLines_Env[OF p]
  have "map (construct P) (occOf CmdEnv (occurrences 1 lines)) = map Inr (envOf s)"
    by (simp add: envOf_def)
  moreover from c have "Inr c \<in> set (map Inr (envOf s))" by simp
  ultimately have "Inr c \<in> set (map (construct P) (occOf CmdEnv (occurrences 1 lines)))"
    by simp
  then obtain occ where o: "occ \<in> set (occOf CmdEnv (occurrences 1 lines))"
    and b: "construct P occ = Inr c"
    by auto
  from o have "fst (snd occ) = CmdEnv" by (simp add: occOf_def)
  with b show ?thesis
    by (cases occ) (auto dest: construct_directive)
qed

lemma directive_From: "directive c = CmdFrom \<Longrightarrow> \<exists>x. c = FromCommand x"
  by (cases c) (simp_all add: Cmd_defs)

lemma directive_As: "directive c = CmdAs \<Longrightarrow> \<exists>x. c = AsCommand x"
  by (cases c) (simp_all add: Cmd_defs)

lemma directive_Workdir: "directive c = CmdWorkDir \<Longrightarrow> \<exists>x. c = WorkdirCommand x"
  by (cases c) (simp_all add: Cmd_defs)

lemma directive_Env: "directive c = CmdEnv \<Longrightarrow> \<exists>x. c = EnvCommand x"
  by (cases c) (simp_all add: Cmd_defs)

lemma Parse_entries:
  assumes "parseScript P lines = (Some s, None)"
  obtains fromCmd asCmd workdirCmd where
    "Preambles s CmdFrom = Some [FromCommand fromCmd]"
    "Preambles s CmdAs = Some [AsCommand asCmd]"
    "Preambles s CmdWorkDir = Some [WorkdirCommand workdirCmd]"
proof -
  have "CmdFrom \<in> set configDirectives" "CmdAs \<in> set configDirectives"
    "CmdWorkDir \<in> set configDirectives"
    by (simp_all add: configDirectives_def)
  from this[THEN Parse_typed[OF assms]] that show ?thesis
    by (auto dest!: directive_From directive_As directive_Workdir)
qed

lemma collectEnv_typed:
  "\<forall>c \<in> set cs. directive c = CmdEnv \<Longrightarrow> \<exists>envs. collectEnv M cs acc = Inr envs"
proof (induction cs arbitrary: acc)
  case Nil
  then show ?case by simp
next
  case (Cons c cs)
  then obtain x where "c = EnvCommand x" by (auto dest: directive_Env)
  with Cons show ?case by simp
qed

section \<open>A file system in memory\<close>

text \<open>
  An instance of the system interface on which runs are evaluated: a file system as a
  list of clean paths with their nodes, and the list of logged error messages. A
  regular file holds its bytes; every other kind of file (symbolic link, device) is
  \<open>OtherNode\<close>. The root and the current directory always exist. Permissions and
  ownership are not modelled. A subprocess is a function from the program and its
  arguments to its output or an error; it leaves the files alone.
\<close>

datatype node = DirNode | FileNode string | OtherNode

record world =
  files :: "(string \<times> node) list"
  errors :: "string list"

datatype handle = OpenFile string | Reader string

definition nodeAtKey :: "world \<Rightarrow> string \<Rightarrow> node option" where
  "nodeAtKey w k = (if k = ''/'' \<or> k = ''.'' then Some DirNode else map_of (files w) k)"

definition nodeAt :: "world \<Rightarrow> string \<Rightarrow> node option" where
  "nodeAt w path = nodeAtKey w (filepath_Clean path)"

definition put :: "string \<Rightarrow> node \<Rightarrow> world \<Rightarrow> world" where
  "put k n w = w\<lparr>files := AList.update k n (files w)\<rparr>"

definition filepath_Dir :: "string \<Rightarrow> string" where
  "filepath_Dir path = filepath_Clean (rev (dropWhile (\<lambda>c. c \<noteq> CHR ''/'') (rev path)))"

definition ancestors :: "string \<Rightarrow> string list" where
  "ancestors path =
     (let p = filepath_Clean path;
          elems = filter (\<lambda>e. e \<noteq> []) (splitOn CHR ''/'' p)
      in map (\<lambda>n. (if hd p = CHR ''/'' then ''/'' else []) @ joinWith ''/'' (take n elems))
           [1..<Suc (length elems)])"

fun mkdirEach :: "string list \<Rightarrow> world \<Rightarrow> error option \<times> world" where
  "mkdirEach [] w = (None, w)"
| "mkdirEach (p # ps) w =
     (case nodeAtKey w p of
        None \<Rightarrow> mkdirEach ps (put p DirNode w)
      | Some DirNode \<Rightarrow> mkdirEach ps w
      | Some _ \<Rightarrow> (Some (ErrOther (''mkdir '' @ p @ '': not a directory'')), w))"

definition mem_MkdirAll :: "string \<Rightarrow> world \<Rightarrow> error option \<times> world" where
  "mem_MkdirAll path w = mkdirEach (ancestors path) w"

definition mem_Lstat :: "world \<Rightarrow> string \<Rightarrow> error + FileInfo" where
  "mem_Lstat w path =
     (case nodeAt w path of
        None \<Rightarrow> Inl (ErrOther (''lstat '' @ path @ '': no such file or directory''))
      | Some DirNode \<Rightarrow> Inr \<lparr>Mode = ModeDir, Size = 4096\<rparr>
      | Some (FileNode bytes) \<Rightarrow> Inr \<lparr>Mode = ModeRegular, Size = int (length bytes)\<rparr>
      | Some OtherNode \<Rightarrow> Inr \<lparr>Mode = ModeOther, Size = 0\<rparr>)"

definition readDirNames :: "world \<Rightarrow> string \<Rightarrow> string list" where
  "readDirNames w dir =
     sort (map (\<lambda>(k, n). filepath_Base k)
            (filter (\<lambda>(k, n). k \<noteq> filepath_Clean dir \<and> filepath_Join [dir, filepath_Base k] = k)
               (files w)))"

text \<open>
  \<open>filepath.Walk\<close>: the root, then the names of each directory in lexical order, depth
  first, as a list of paths still to visit. A path is examined when its turn comes;
  the first error of the callback ends the walk. The number of visits is bounded.
\<close>

fun walkList ::
  "nat \<Rightarrow> string list \<Rightarrow> (string \<Rightarrow> FileInfo \<Rightarrow> error option \<Rightarrow> world \<Rightarrow> error option \<times> world)
    \<Rightarrow> world \<Rightarrow> error option \<times> world" where
  "walkList n [] fn w = (None, w)"
| "walkList 0 (path # todo) fn w = (Some (ErrOther ''walk: too many files''), w)"
| "walkList (Suc n) (path # todo) fn w =
     (case mem_Lstat w path of
        Inl err \<Rightarrow>
          (case fn path \<lparr>Mode = ModeOther, Size = 0\<rparr> (Some err) w of
             (Some e, w') \<Rightarrow> (Some e, w')
           | (None, w') \<Rightarrow> walkList n todo fn w')
      | Inr info \<Rightarrow>
          (let names = (if IsDir (Mode info) then readDirNames w path else [])
           in case fn path info None w of
                (Some e, w') \<Rightarrow> (Some e, w')
              | (None, w') \<Rightarrow>
                  walkList n (map (\<lambda>name. filepath_Join [path, name]) names @ todo) fn w'))"

definition mem_Open :: "string \<Rightarrow> world \<Rightarrow> (error + handle) \<times> world" where
  "mem_Open path w =
     (case nodeAt w path of
        None \<Rightarrow> (Inl (ErrOther (''open '' @ path @ '': no such file or directory'')), w)
      | Some n \<Rightarrow> (Inr (OpenFile (filepath_Clean path)), w))"

definition mem_Create :: "string \<Rightarrow> world \<Rightarrow> (error + handle) \<times> world" where
  "mem_Create path w =
     (if nodeAt w path = Some DirNode \<or> nodeAt w path = Some OtherNode
      then (Inl (ErrOther (''open '' @ path @ '': is a directory'')), w)
      else if nodeAt w (filepath_Dir (filepath_Clean path)) \<noteq> Some DirNode
      then (Inl (ErrOther (''open '' @ path @ '': no such file or directory'')), w)
      else (Inr (OpenFile (filepath_Clean path)), put (filepath_Clean path) (FileNode []) w))"

definition readAll :: "world \<Rightarrow> handle \<Rightarrow> error + string" where
  "readAll w h =
     (case h of
        Reader bytes \<Rightarrow> Inr bytes
      | OpenFile k \<Rightarrow>
          (case nodeAtKey w k of
             Some (FileNode bytes) \<Rightarrow> Inr bytes
           | _ \<Rightarrow> Inl (ErrOther (''read '' @ k @ '': is a directory''))))"

definition mem_Copy :: "handle \<Rightarrow> handle \<Rightarrow> world \<Rightarrow> (int \<times> error option) \<times> world" where
  "mem_Copy dst src w =
     (case readAll w src of
        Inl err \<Rightarrow> ((0, Some err), w)
      | Inr bytes \<Rightarrow>
          (case dst of
             Reader b \<Rightarrow> ((0, Some (ErrOther ''write: bad file descriptor'')), w)
           | OpenFile k \<Rightarrow>
               (case nodeAtKey w k of
                  Some (FileNode old) \<Rightarrow>
                    ((int (length bytes), None), put k (FileNode (old @ bytes)) w)
                | _ \<Rightarrow> ((0, Some (ErrOther ''write: bad file descriptor'')), w))))"

definition memSys ::
  "(string \<Rightarrow> string list \<Rightarrow> error + string) \<Rightarrow> (string \<Rightarrow> string) \<Rightarrow> nat \<Rightarrow> (world, handle) sys" where
  "memSys run flat visits =
     \<lparr>os_MkdirAll = mem_MkdirAll,
      filepath_Walk = (\<lambda>root fn w. walkList visits [root] fn w),
      os_Open = mem_Open,
      os_Create = mem_Create,
      io_Copy = mem_Copy,
      Close = (\<lambda>h w. (None, w)),
      logrus_Error = (\<lambda>msg w. w\<lparr>errors := errors w @ [msg]\<rparr>),
      CliRun = (\<lambda>uid gid envs cmd args w. (map_sum id Reader (run cmd args), w)),
      flatCmd = flat\<rparr>"

text \<open>
  The sample methods read a command of the sample package: the raw arguments are the
  path, the command line, or the paths and environment pairs separated by spaces; the
  identity \<open>foo:barr\<close> is the one that does not resolve.
\<close>

definition sampleMethods :: "(int \<times> string) script_methods" where
  "sampleMethods =
     \<lparr>Sources = (\<lambda>c. filter (\<lambda>e. e \<noteq> []) (splitOn CHR '' '' (snd c))),
      GetCredentials = (\<lambda>c. if snd c = ''foo:barr'' then Inl (ErrOther ''user: unknown user foo'')
                            else Inr (1000, 100)),
      Dir = (\<lambda>c. drop 5 (snd c)),
      Envs = (\<lambda>c. filter (\<lambda>e. e \<noteq> []) (splitOn CHR '' '' (snd c))),
      Args = (\<lambda>c. filter (\<lambda>e. e \<noteq> []) (splitOn CHR '' '' (snd c))),
      Name = (\<lambda>c. ''COPY''),
      GetCliString = snd,
      GetParsedCli = (\<lambda>c. case filter (\<lambda>e. e \<noteq> []) (splitOn CHR '' '' (snd c)) of
                             [] \<Rightarrow> ([], []) | x # xs \<Rightarrow> (x, xs))\<rparr>"

definition sampleFlat :: "string \<Rightarrow> string" where
  "sampleFlat s = map (\<lambda>c. if c = CHR '' '' \<or> c = CHR ''/'' then CHR ''_'' else c) s"

definition sampleRun :: "string \<Rightarrow> string list \<Rightarrow> error + string" where
  "sampleRun cmd args =
     (if cmd = ''/bin/echo'' then Inr (joinWith '' '' args @ [CHR 0x0A])
      else Inl (ErrOther (''exec: '' @ cmd @ '': file not found'')))"

definition sampleSys :: "(world, handle) sys" where
  "sampleSys = memSys sampleRun sampleFlat 100"

definition runScript :: "string list \<Rightarrow> world \<Rightarrow> (outcome \<times> world) option" where
  "runScript lines w =
     (case parseScript samplePkg lines of
        (Some s, None) \<Rightarrow> Some (Execute sampleMethods sampleSys s w)
      | _ \<Rightarrow> None)"

definition world0 :: world where
  "world0 =
     \<lparr>files =
        [(''/dev'', DirNode), (''/dev/null'', OtherNode),
         (''/src'', DirNode), (''/src/a'', DirNode), (''/src/a/f'', FileNode ''1''),
         (''/src/b'', DirNode), (''/src/b/f'', FileNode ''22''), (''/src/c'', FileNode ''333''),
         (''/tmp'', DirNode), (''/tmp/wd'', DirNode), (''/tmp/wd/..data'', DirNode),
         (''/tmp/wd/..data/x'', FileNode ''xx''), (''/tmp/wd/sub'', DirNode),
         (''/tmp/wd/sub/y'', FileNode ''yy'')],
      errors = []\<rparr>"

section \<open>Properties of the executor\<close>

lemma execActions_append:
  "execActions M X ctx (xs @ ys) w =
     (case execActions M X ctx xs w of
        (Some err, w') \<Rightarrow> (Some err, w')
      | (None, w') \<Rightarrow> execActions M X ctx ys w')"
  by (induction xs arbitrary: w) (auto split: prod.splits option.splits)

lemma forSources_concat:
  "forSources M X ctx actions sources w =
     execActions M X ctx (concat (map (\<lambda>fromSrc. actions) sources)) w"
  by (induction sources arbitrary: w)
     (auto simp: execActions_append split: prod.splits option.splits)

lemma copyPaths_append:
  "copyPaths M X wd cmd (ps @ qs) w = copyPaths M X wd cmd qs (copyPaths M X wd cmd ps w)"
  by (induction ps arbitrary: w) auto

lemma Execute_loops:
  "setUp M X s w = Inr (ctx, fromCmd, w1) \<Longrightarrow>
   Execute M X s w =
     (case execActions M X ctx (concat (map (\<lambda>fromSrc. Actions s) (Sources M fromCmd))) w1 of
        (err, w2) \<Rightarrow> (Returned err, w2))"
  by (simp add: Execute_def forSources_concat)

lemma setUp_parsed:
  assumes "parseScript P lines = (Some s, None)"
  obtains fromCmd asCmd workdirCmd envs where
    "Preambles s CmdFrom = Some [FromCommand fromCmd]"
    "Preambles s CmdAs = Some [AsCommand asCmd]"
    "Preambles s CmdWorkDir = Some [WorkdirCommand workdirCmd]"
    "collectEnv M (envOf s) [] = Inr envs"
    "setUp M X s w =
      (case GetCredentials M asCmd of
         Inl err \<Rightarrow> Inl (Returned (Some err), w)
       | Inr (uid, gid) \<Rightarrow>
           (case mkdirAll X (Dir M workdirCmd) w of
              (Some err, w1) \<Rightarrow> Inl (Returned (Some err), w1)
            | (None, w1) \<Rightarrow>
                Inr (\<lparr>asUid = uid, asGid = gid, envPairs = envs, workdirPath = Dir M workdirCmd\<rparr>,
                     fromCmd, w1)))"
proof -
  from assms obtain fromCmd asCmd workdirCmd where e:
    "Preambles s CmdFrom = Some [FromCommand fromCmd]"
    "Preambles s CmdAs = Some [AsCommand asCmd]"
    "Preambles s CmdWorkDir = Some [WorkdirCommand workdirCmd]"
    by (rule Parse_entries)
  have "\<forall>c \<in> set (envOf s). directive c = CmdEnv"
    using assms by (auto dest: Parse_env_typed)
  then obtain envs where v: "collectEnv M (envOf s) [] = Inr envs"
    using collectEnv_typed by blast
  have "setUp M X s w =
      (case GetCredentials M asCmd of
         Inl err \<Rightarrow> Inl (Returned (Some err), w)
       | Inr (uid, gid) \<Rightarrow>
           (case mkdirAll X (Dir M workdirCmd) w of
              (Some err, w1) \<Rightarrow> Inl (Returned (Some err), w1)
            | (None, w1) \<Rightarrow>
                Inr (\<lparr>asUid = uid, asGid = gid, envPairs = envs, workdirPath = Dir M workdirCmd\<rparr>,
                     fromCmd, w1)))"
    by (simp add: setUp_def preamble0_def e v split: sum.splits prod.splits option.splits)
  with e v that show ?thesis by blast
qed

text \<open>
  Claim C4. In every script built from a list of lines, and so in every script that
  \<open>Parse\<close> returns from the lines of its reader, the \<open>AS\<close> entry holds one identity
  command. When \<open>GetCredentials\<close> gives an error on it, \<open>Execute\<close> returns that error and
  leaves the world as it found it, whatever the system interface is: no working
  directory is created, no subprocess is run, nothing is copied or written.
\<close>

theorem Execute_unresolved_identity_no_effect:
  assumes "parseScript P lines = (Some s, None)"
  shows "\<exists>asCmd. Preambles s CmdAs = Some [AsCommand asCmd]
           \<and> (\<forall>err. GetCredentials M asCmd = Inl err \<longrightarrow>
                 Execute M X s w = (Returned (Some err), w))"
proof -
  from assms obtain fromCmd asCmd workdirCmd envs where
    a: "Preambles s CmdAs = Some [AsCommand asCmd]" and
    u: "setUp M X s w =
      (case GetCredentials M asCmd of
         Inl err \<Rightarrow> Inl (Returned (Some err), w)
       | Inr (uid, gid) \<Rightarrow>
           (case mkdirAll X (Dir M workdirCmd) w of
              (Some err, w1) \<Rightarrow> Inl (Returned (Some err), w1)
            | (None, w1) \<Rightarrow>
                Inr (\<lparr>asUid = uid, asGid = gid, envPairs = envs, workdirPath = Dir M workdirCmd\<rparr>,
                     fromCmd, w1)))"
    by (rule setUp_parsed)
  have "Execute M X s w = (Returned (Some err), w)" if "GetCredentials M asCmd = Inl err" for err
    using that u by (simp add: Execute_def)
  with a show ?thesis by blast
qed


lemma copyPath_rejected:
  "relativeToWorkdir workdir path \<Longrightarrow>
   copyPath M X workdir cmd path w
     = logrus_Error X
         (Name M cmd @ '' path '' @ path @ '' cannot be relative to workdir '' @ workdir) w"
  by (simp add: copyPath_def)

lemma walkFn_unknown_file_type:
  "\<not> IsDir (Mode finfo) \<Longrightarrow> \<not> IsRegular (Mode finfo) \<Longrightarrow>
   walkFn X workdir file finfo None w
     = (Some (Errorf (''%!s(func() string) unknown file type for '' @ file)), w)"
  by (simp add: walkFn_def)

lemma walkFn_size_mismatch:
  "IsRegular (Mode finfo) \<Longrightarrow> os_Open X file w = (Inr srcFile, w1) \<Longrightarrow>
   os_Create X (filepath_Join [workdir, filepath_Base file]) w1 = (Inr desFile, w2) \<Longrightarrow>
   io_Copy X desFile srcFile w2 = ((n, None), w3) \<Longrightarrow> Close X desFile w3 = (None, w4) \<Longrightarrow>
   n \<noteq> Size finfo \<Longrightarrow>
   walkFn X workdir file finfo None w
     = (Some (Errorf (''%!s(func() string) did not complet for '' @ file)),
        snd (Close X srcFile w4))"
  by (simp add: walkFn_def IsDir_def IsRegular_def)

lemma execActions_no_capture:
  "\<forall>a \<in> set actions. directive a \<noteq> CmdCapture \<Longrightarrow> fst (execActions M X ctx actions w) = None"
proof (induction actions arbitrary: w)
  case Nil
  then show ?case by simp
next
  case (Cons a actions)
  then have "fst (execAction M X ctx a w) = None"
    by (cases a) (simp_all add: Cmd_defs)
  with Cons show ?case by (auto split: prod.splits option.splits)
qed

text \<open>
  Claim C8. When the run has come to a \<open>COPY\<close> action and the walk of one of its
  arguments returns an error (the callback's errors for a size mismatch or an unknown
  file type among them), the error is logged, the remaining arguments of the action are
  processed, the actions and nodes after it are run, and \<open>Execute\<close> returns what they
  give: the error of the walk is not returned.
\<close>

theorem Execute_walk_error_skips_path:
  assumes "setUp M X s w = Inr (ctx, fromCmd, w1)"
    and "concat (map (\<lambda>fromSrc. Actions s) (Sources M fromCmd))
           = before @ CopyCommand cmd # after"
    and "execActions M X ctx before w1 = (None, w2)"
    and "Args M cmd = paths @ path # rest"
    and "\<not> relativeToWorkdir (workdirPath ctx) path"
    and "filepath_Walk X path (walkFn X (workdirPath ctx))
           (copyPaths M X (workdirPath ctx) cmd paths w2) = (Some err, w3)"
  shows "Execute M X s w =
           (case execActions M X ctx after
                   (copyPaths M X (workdirPath ctx) cmd rest (logrus_Error X (Error err) w3)) of
              (result, w4) \<Rightarrow> (Returned result, w4))"
proof -
  from assms(5,6)
  have "copyPath M X (workdirPath ctx) cmd path (copyPaths M X (workdirPath ctx) cmd paths w2)
      = logrus_Error X (Error err) w3"
    by (simp add: copyPath_def)
  then have "execAction M X ctx (CopyCommand cmd) w2
      = (None, copyPaths M X (workdirPath ctx) cmd rest (logrus_Error X (Error err) w3))"
    by (simp add: assms(4) copyPaths_append)
  with assms(3) Execute_loops[OF assms(1)] assms(2) show ?thesis
    by (simp add: execActions_append)
qed

lemma Execute_without_capture:
  assumes "setUp M X s w = Inr (ctx, fromCmd, w1)"
    and "\<forall>a \<in> set (Actions s). directive a \<noteq> CmdCapture"
  shows "fst (Execute M X s w) = Returned None"
proof -
  from assms(2) have "\<forall>a \<in> set (concat (map (\<lambda>fromSrc. Actions s) (Sources M fromCmd))).
        directive a \<noteq> CmdCapture"
    by auto
  from execActions_no_capture[OF this, of M X ctx w1] Execute_loops[OF assms(1)]
  show ?thesis by (simp split: prod.splits)
qed

lemma preamble0_cases:
  "Preambles s k = None \<Longrightarrow>
     preamble0 assert k s = Inl (Returned (Some (Errorf (''Script missing valid '' @ k))))"
  "Preambles s k = Some [] \<Longrightarrow> preamble0 assert k s = Inl (Panicked IndexOutOfRange)"
  "Preambles s k = Some (c # cs) \<Longrightarrow> assert c = Inl p \<Longrightarrow> preamble0 assert k s = Inl (Panicked p)"
  "Preambles s k = Some (c # cs) \<Longrightarrow> assert c = Inr x \<Longrightarrow> preamble0 assert k s = Inr x"
  by (simp_all add: preamble0_def)

lemma assert_wrong:
  "\<forall>x. c \<noteq> FromCommand x \<Longrightarrow> assertFrom c = Inl TypeAssertion"
  "\<forall>x. c \<noteq> AsCommand x \<Longrightarrow> assertAs c = Inl TypeAssertion"
  "\<forall>x. c \<noteq> WorkdirCommand x \<Longrightarrow> assertWorkdir c = Inl TypeAssertion"
  by (cases c; simp)+

text \<open>
  Claim C10, as amended. \<open>Execute\<close> checks \<open>FROM\<close>, then \<open>AS\<close> and its credentials, then
  \<open>WORKDIR\<close>, and each check tests only that \<open>Preambles\<close> has the key. At the first of
  the three directives that is not a list starting with a command of its own type,
  reached with the directives before it in order and the credentials resolved: an
  absent key gives the error \<open>Script missing valid\<close> with the directive's name, an empty
  list gives the panic of an index out of range, and a first command of another type
  gives the panic of a failed type assertion. When \<open>FROM\<close> and \<open>AS\<close> are in order and
  \<open>GetCredentials\<close> fails, \<open>Execute\<close> returns the error of \<open>GetCredentials\<close> whatever
  the \<open>WORKDIR\<close> entry is: an absent, empty or wrongly typed \<open>WORKDIR\<close> behind it gives
  neither its error nor a panic. The world is left as it was.
\<close>

theorem Execute_setup_checks_in_order:
  "(Preambles s CmdFrom = None \<longrightarrow>
      Execute M X s w = (Returned (Some (Errorf ''Script missing valid FROM'')), w))
 \<and> (Preambles s CmdFrom = Some [] \<longrightarrow> Execute M X s w = (Panicked IndexOutOfRange, w))
 \<and> (\<forall>c cs. Preambles s CmdFrom = Some (c # cs) \<and> (\<forall>x. c \<noteq> FromCommand x) \<longrightarrow>
      Execute M X s w = (Panicked TypeAssertion, w))
 \<and> (\<forall>fromCmd cs. Preambles s CmdFrom = Some (FromCommand fromCmd # cs) \<longrightarrow>
      (Preambles s CmdAs = None \<longrightarrow>
         Execute M X s w = (Returned (Some (Errorf ''Script missing valid AS'')), w))
    \<and> (Preambles s CmdAs = Some [] \<longrightarrow> Execute M X s w = (Panicked IndexOutOfRange, w))
    \<and> (\<forall>c cs. Preambles s CmdAs = Some (c # cs) \<and> (\<forall>x. c \<noteq> AsCommand x) \<longrightarrow>
         Execute M X s w = (Panicked TypeAssertion, w))
    \<and> (\<forall>asCmd cs err.
         Preambles s CmdAs = Some (AsCommand asCmd # cs) \<and> GetCredentials M asCmd = Inl err \<longrightarrow>
         Execute M X s w = (Returned (Some err), w))
    \<and> (\<forall>asCmd cs uid gid.
         Preambles s CmdAs = Some (AsCommand asCmd # cs) \<and> GetCredentials M asCmd = Inr (uid, gid) \<longrightarrow>
         (Preambles s CmdWorkDir = None \<longrightarrow>
            Execute M X s w = (Returned (Some (Errorf ''Script missing valid WORKDIR'')), w))
       \<and> (Preambles s CmdWorkDir = Some [] \<longrightarrow> Execute M X s w = (Panicked IndexOutOfRange, w))
       \<and> (\<forall>c cs. Preambles s CmdWorkDir = Some (c # cs) \<and> (\<forall>x. c \<noteq> WorkdirCommand x) \<longrightarrow>
            Execute M X s w = (Panicked TypeAssertion, w))))"
  by (auto simp: Execute_def setUp_def preamble0_def assert_wrong Cmd_defs)

lemma memSys_sel [simp]:
  "os_MkdirAll (memSys run flat visits) = mem_MkdirAll"
  "filepath_Walk (memSys run flat visits) = (\<lambda>root fn w. walkList visits [root] fn w)"
  "os_Open (memSys run flat visits) = mem_Open"
  "os_Create (memSys run flat visits) = mem_Create"
  "io_Copy (memSys run flat visits) = mem_Copy"
  "Close (memSys run flat visits) = (\<lambda>h w. (None, w))"
  "logrus_Error (memSys run flat visits) = (\<lambda>msg w. w\<lparr>errors := errors w @ [msg]\<rparr>)"
  "CliRun (memSys run flat visits)
     = (\<lambda>uid gid envs cmd args w. (map_sum id Reader (run cmd args), w))"
  "flatCmd (memSys run flat visits) = flat"
  by (simp_all add: memSys_def)

lemma nodeAtKey_put:
  "k \<noteq> ''/'' \<Longrightarrow> k \<noteq> ''.'' \<Longrightarrow>
   nodeAtKey (put k n w) q = (if q = k then Some n else nodeAtKey w q)"
  by (simp add: nodeAtKey_def put_def update_conv')

lemma nodeAtKey_root: "nodeAtKey w k \<noteq> Some DirNode \<Longrightarrow> k \<noteq> ''/'' \<and> k \<noteq> ''.''"
  by (auto simp: nodeAtKey_def)

lemma mkdirEach_only_adds_directories:
  "mkdirEach ps w = (r, w1) \<Longrightarrow>
   nodeAtKey w1 q = nodeAtKey w q \<or> (nodeAtKey w q = None \<and> nodeAtKey w1 q = Some DirNode)"
proof (induction ps arbitrary: w)
  case Nil
  then show ?case by simp
next
  case (Cons p ps)
  show ?case
  proof (cases "nodeAtKey w p")
    case None
    then have k: "p \<noteq> ''/''" "p \<noteq> ''.''" using nodeAtKey_root[of w p] by simp_all
    from None Cons.prems(1) have "mkdirEach ps (put p DirNode w) = (r, w1)" by simp
    from Cons.IH[OF this] None show ?thesis
      by (auto simp: nodeAtKey_put[OF k] split: if_splits)
  next
    case (Some n)
    with Cons show ?thesis by (cases n) auto
  qed
qed

lemma capture_mem:
  assumes "capture M (memSys run flat visits) ctx cmd w = (None, w')"
  shows "\<exists>out. (case GetParsedCli M cmd of (cliCmd, cliArgs) \<Rightarrow> run cliCmd cliArgs) = Inr out
           \<and> nodeAt w' (captureFile M (memSys run flat visits) ctx cmd) = Some (FileNode out)
           \<and> (\<forall>q. q \<noteq> filepath_Clean (captureFile M (memSys run flat visits) ctx cmd)
                  \<longrightarrow> nodeAtKey w' q = nodeAtKey w q)"
proof -
  let ?X = "memSys run flat visits"
  let ?t = "captureFile M ?X ctx cmd"
  let ?k = "filepath_Clean ?t"
  obtain cliCmd cliArgs where g: "GetParsedCli M cmd = (cliCmd, cliArgs)"
    by (cases "GetParsedCli M cmd")
  from assms obtain out where r: "run cliCmd cliArgs = Inr out"
    and wf: "writeFile ?X (Reader out) ?t w = (None, w')"
    by (cases "run cliCmd cliArgs") (auto simp: capture_def cliRun_def g)
  from wf have c: "nodeAt w ?t \<noteq> Some DirNode"
    and w': "mem_Copy (OpenFile ?k) (Reader out) (put ?k (FileNode []) w) = ((int (length out), None), w')"
    by (auto simp: writeFile_def mem_Create_def mem_Copy_def readAll_def
        split: if_splits prod.splits option.splits node.splits)
  from c have k: "?k \<noteq> ''/''" "?k \<noteq> ''.''"
    using nodeAtKey_root[of w ?k] by (simp_all add: nodeAt_def)
  from w' have "w' = put ?k (FileNode out) (put ?k (FileNode []) w)"
    by (simp add: mem_Copy_def readAll_def nodeAtKey_put[OF k])
  then have "nodeAt w' ?t = Some (FileNode out)"
    and "\<forall>q. q \<noteq> ?k \<longrightarrow> nodeAtKey w' q = nodeAtKey w q"
    by (simp_all add: nodeAt_def nodeAtKey_put[OF k])
  with r g show ?thesis by simp
qed

lemma forSources_capture_mem:
  assumes "forSources M (memSys run flat visits) ctx [CaptureCommand cmd] sources w = (None, w')"
  shows "(\<forall>q. q \<noteq> filepath_Clean (captureFile M (memSys run flat visits) ctx cmd)
                  \<longrightarrow> nodeAtKey w' q = nodeAtKey w q)
       \<and> (sources \<noteq> [] \<longrightarrow>
            (\<exists>out. (case GetParsedCli M cmd of (cliCmd, cliArgs) \<Rightarrow> run cliCmd cliArgs) = Inr out
               \<and> nodeAt w' (captureFile M (memSys run flat visits) ctx cmd) = Some (FileNode out)))"
  using assms
proof (induction sources arbitrary: w)
  case Nil
  then show ?case by simp
next
  case (Cons fromSrc sources)
  let ?X = "memSys run flat visits"
  from Cons.prems obtain w1 where
    1: "capture M ?X ctx cmd w = (None, w1)" and
    2: "forSources M ?X ctx [CaptureCommand cmd] sources w1 = (None, w')"
    by (auto split: prod.splits option.splits)
  from capture_mem[OF 1] obtain out where
    o: "(case GetParsedCli M cmd of (cliCmd, cliArgs) \<Rightarrow> run cliCmd cliArgs) = Inr out" and
    t: "nodeAt w1 (captureFile M ?X ctx cmd) = Some (FileNode out)" and
    k: "\<forall>q. q \<noteq> filepath_Clean (captureFile M ?X ctx cmd) \<longrightarrow> nodeAtKey w1 q = nodeAtKey w q"
    by blast
  from Cons.IH[OF 2] have
    k': "\<forall>q. q \<noteq> filepath_Clean (captureFile M ?X ctx cmd) \<longrightarrow> nodeAtKey w' q = nodeAtKey w1 q"
    and e: "sources \<noteq> [] \<longrightarrow>
            (\<exists>out. (case GetParsedCli M cmd of (cliCmd, cliArgs) \<Rightarrow> run cliCmd cliArgs) = Inr out
               \<and> nodeAt w' (captureFile M ?X ctx cmd) = Some (FileNode out))"
    by blast+
  have "\<exists>out. (case GetParsedCli M cmd of (cliCmd, cliArgs) \<Rightarrow> run cliCmd cliArgs) = Inr out
               \<and> nodeAt w' (captureFile M ?X ctx cmd) = Some (FileNode out)"
  proof (cases "sources = []")
    case True
    with 2 have "w' = w1" by simp
    with o t show ?thesis by blast
  next
    case False
    with e show ?thesis by blast
  qed
  with k k' show ?case by simp
qed

text \<open>
  Claim C1. On the file system in memory, for every script built from a list of lines
  (every script that \<open>Parse\<close> returns is one) whose only action is one \<open>CAPTURE\<close> and
  whose source list is not empty: when \<open>Execute\<close> returns \<open>nil\<close>, the
  file named by the flattened command line with the suffix \<open>.txt\<close>, directly under the
  working directory, exists and holds the output of the command; every other path is
  as it was before the run, or is a directory that the run has created.
\<close>

theorem Execute_single_capture_one_file:
  assumes "parseScript P lines = (Some s, None)"
    and "Actions s = [CaptureCommand cmd]"
    and "Preambles s CmdFrom = Some [FromCommand fromCmd]"
    and "Sources M fromCmd \<noteq> []"
    and "Preambles s CmdWorkDir = Some [WorkdirCommand workdirCmd]"
    and "Execute M (memSys run flat visits) s w = (Returned None, w')"
  shows "\<exists>out. (case GetParsedCli M cmd of (cliCmd, cliArgs) \<Rightarrow> run cliCmd cliArgs) = Inr out
           \<and> nodeAt w' (filepath_Join [Dir M workdirCmd, flat (GetCliString M cmd) @ ''.txt''])
               = Some (FileNode out)
           \<and> (\<forall>path.
                 filepath_Clean path
                   \<noteq> filepath_Clean
                       (filepath_Join [Dir M workdirCmd, flat (GetCliString M cmd) @ ''.txt''])
                 \<longrightarrow> nodeAt w' path = nodeAt w path
                     \<or> (nodeAt w path = None \<and> nodeAt w' path = Some DirNode))"
proof -
  let ?X = "memSys run flat visits"
  from assms(1) obtain fromCmd' asCmd workdirCmd' envs where
    f: "Preambles s CmdFrom = Some [FromCommand fromCmd']" and
    d: "Preambles s CmdWorkDir = Some [WorkdirCommand workdirCmd']" and
    u: "setUp M ?X s w =
      (case GetCredentials M asCmd of
         Inl err \<Rightarrow> Inl (Returned (Some err), w)
       | Inr (uid, gid) \<Rightarrow>
           (case mkdirAll ?X (Dir M workdirCmd') w of
              (Some err, w1) \<Rightarrow> Inl (Returned (Some err), w1)
            | (None, w1) \<Rightarrow>
                Inr (\<lparr>asUid = uid, asGid = gid, envPairs = envs, workdirPath = Dir M workdirCmd'\<rparr>,
                     fromCmd', w1)))"
    by (rule setUp_parsed)
  from f d assms(3,5) have eq: "fromCmd' = fromCmd" "workdirCmd' = workdirCmd" by simp_all
  from assms(6) u obtain uid gid w1 where
    m: "mkdirAll ?X (Dir M workdirCmd) w = (None, w1)" and
    l: "forSources M ?X
          \<lparr>asUid = uid, asGid = gid, envPairs = envs, workdirPath = Dir M workdirCmd\<rparr>
          [CaptureCommand cmd] (Sources M fromCmd) w1 = (None, w')"
    unfolding Execute_def eq assms(2)
    by (auto split: sum.splits prod.splits option.splits)
  let ?ctx = "\<lparr>asUid = uid, asGid = gid, envPairs = envs, workdirPath = Dir M workdirCmd\<rparr>"
  let ?t = "filepath_Join [Dir M workdirCmd, flat (GetCliString M cmd) @ ''.txt'']"
  have t: "captureFile M ?X ?ctx cmd = ?t"
    by (simp add: captureFile_def Let_def)
  from m obtain r where "mkdirEach (ancestors (Dir M workdirCmd)) w = (r, w1)"
    by (auto simp: mkdirAll_def mem_MkdirAll_def split: prod.splits option.splits if_splits)
  note dirs = mkdirEach_only_adds_directories[OF this]
  from forSources_capture_mem[OF l] assms(4) obtain out where
    o: "(case GetParsedCli M cmd of (cliCmd, cliArgs) \<Rightarrow> run cliCmd cliArgs) = Inr out" and
    n: "nodeAt w' ?t = Some (FileNode out)" and
    k: "\<forall>q. q \<noteq> filepath_Clean ?t \<longrightarrow> nodeAtKey w' q = nodeAtKey w1 q"
    unfolding t by blast
  have "nodeAt w' path = nodeAt w path \<or> (nodeAt w path = None \<and> nodeAt w' path = Some DirNode)"
    if "filepath_Clean path \<noteq> filepath_Clean ?t" for path
    using k that dirs[of "filepath_Clean path"] by (simp add: nodeAt_def)
  with o n show ?thesis by blast
qed

section \<open>Runs on the sample world\<close>

text \<open>
  Scripts as the parser builds them from the sample package, with the working directory
  \<open>/tmp/wd\<close>; a world in which the output file of \<open>/bin/echo a\<close> cannot be created, a
  directory being in its place; a system on which every \<open>io.Copy\<close> fails, the disk being
  full; and the context in which their actions run.
\<close>

definition copyScript :: "(int \<times> string) Script" where
  "copyScript =
     \<lparr>Preambles =
        [CmdFrom \<mapsto> [FromCommand (0, ''local'')],
         CmdAs \<mapsto> [AsCommand (0, ''userid:1000 groupid:100'')],
         CmdWorkDir \<mapsto> [WorkdirCommand (1, ''path:/tmp/wd'')]],
      Actions = [CopyCommand (2, ''/dev/null /src/c''), CaptureCommand (3, ''/bin/echo a'')]\<rparr>"





definition ctx0 :: execCtx where
  "ctx0 = \<lparr>asUid = 1000, asGid = 100, envPairs = [], workdirPath = ''/tmp/wd''\<rparr>"

theorem Execute_unresolved_identity_no_effect_witness:
  "\<exists>s. parseScript samplePkg [''AS foo:barr '', ''CAPTURE /bin/echo HELLO WORLD''] = (Some s, None)
      \<and> Preambles s CmdAs = Some [AsCommand (1, ''foo:barr'')]
      \<and> Execute sampleMethods sampleSys s world0
          = (Returned (Some (ErrOther ''user: unknown user foo'')), world0)"
proof -
  define L where "L = [''AS foo:barr '', ''CAPTURE /bin/echo HELLO WORLD'']"
  have e: "snd (parseScript samplePkg L) = None"
    unfolding L_def by code_simp
  have "\<not> Option.is_none (fst (parseScript samplePkg L))"
    unfolding L_def by code_simp
  with e obtain s where h: "parseScript samplePkg L = (Some s, None)"
    by (cases "parseScript samplePkg L") (auto simp: Option.is_none_def)
  have "Preambles (the (fst (parseScript samplePkg L))) CmdAs = Some [AsCommand (1, ''foo:barr'')]"
    unfolding L_def by code_simp
  with h have a: "Preambles s CmdAs = Some [AsCommand (1, ''foo:barr'')]" by simp
  have g: "GetCredentials sampleMethods (1, ''foo:barr'') = Inl (ErrOther ''user: unknown user foo'')"
    by (simp add: sampleMethods_def)
  from Execute_unresolved_identity_no_effect[OF h, of sampleMethods sampleSys world0] a g
  have "Execute sampleMethods sampleSys s world0
          = (Returned (Some (ErrOther ''user: unknown user foo'')), world0)"
    by auto
  with h a show ?thesis unfolding L_def by blast
qed


theorem Execute_walk_error_skips_path_witness:
  "Execute sampleMethods sampleSys copyScript world0
     = (Returned None,
        world0\<lparr>files := files world0
                   @ [(''/tmp/wd/c'', FileNode ''333''),
                      (''/tmp/wd/_bin_echo_a.txt'', FileNode (''a'' @ [CHR 0x0A]))],
               errors := [''%!s(func() string) unknown file type for /dev/null'']\<rparr>)"
proof -
  have 1: "setUp sampleMethods sampleSys copyScript world0 = Inr (ctx0, (0, ''local''), world0)"
    by code_simp
  have 2: "concat (map (\<lambda>fromSrc. Actions copyScript) (Sources sampleMethods (0, ''local'')))
      = [] @ CopyCommand (2, ''/dev/null /src/c'') # [CaptureCommand (3, ''/bin/echo a'')]"
    by code_simp
  have 3: "execActions sampleMethods sampleSys ctx0 [] world0 = (None, world0)"
    by simp
  have 4: "Args sampleMethods (2, ''/dev/null /src/c'') = [] @ ''/dev/null'' # [''/src/c'']"
    by code_simp
  have 5: "\<not> relativeToWorkdir (workdirPath ctx0) ''/dev/null''"
    by code_simp
  have 6: "filepath_Walk sampleSys ''/dev/null'' (walkFn sampleSys (workdirPath ctx0))
        (copyPaths sampleMethods sampleSys (workdirPath ctx0) (2, ''/dev/null /src/c'') [] world0)
      = (Some (Errorf ''%!s(func() string) unknown file type for /dev/null''), world0)"
    by code_simp
  have 7: "(case execActions sampleMethods sampleSys ctx0 [CaptureCommand (3, ''/bin/echo a'')]
                   (copyPaths sampleMethods sampleSys (workdirPath ctx0) (2, ''/dev/null /src/c'')
                      [''/src/c'']
                      (logrus_Error sampleSys
                        (Error (Errorf ''%!s(func() string) unknown file type for /dev/null''))
                        world0)) of
              (result, w4) \<Rightarrow> (Returned result, w4))
     = (Returned None,
        world0\<lparr>files := files world0
                   @ [(''/tmp/wd/c'', FileNode ''333''),
                      (''/tmp/wd/_bin_echo_a.txt'', FileNode (''a'' @ [CHR 0x0A]))],
               errors := [''%!s(func() string) unknown file type for /dev/null'']\<rparr>)"
    by code_simp
  show ?thesis
    by (rule trans[OF Execute_walk_error_skips_path[OF 1 2 3 4 5 6] 7])
qed

theorem Execute_single_capture_one_file_witness:
  "\<exists>s. parseScript samplePkg [''CAPTURE /bin/echo HELLO WORLD''] = (Some s, None)
      \<and> (\<exists>w'. Execute sampleMethods sampleSys s world0 = (Returned None, w')
             \<and> nodeAt w' ''/tmp/crashdir/_bin_echo_HELLO_WORLD.txt''
                 = Some (FileNode (''HELLO WORLD'' @ [CHR 0x0A]))
             \<and> filter (\<lambda>(k, n). n \<noteq> DirNode \<and> nodeAt world0 k \<noteq> Some n) (files w')
                 = [(''/tmp/crashdir/_bin_echo_HELLO_WORLD.txt'',
                     FileNode (''HELLO WORLD'' @ [CHR 0x0A]))])"
proof -
  define L where "L = [''CAPTURE /bin/echo HELLO WORLD'']"
  define w' where "w' = world0\<lparr>files := files world0
      @ [(''/tmp/crashdir'', DirNode),
         (''/tmp/crashdir/_bin_echo_HELLO_WORLD.txt'', FileNode (''HELLO WORLD'' @ [CHR 0x0A]))]\<rparr>"
  have e: "snd (parseScript samplePkg L) = None"
    unfolding L_def by code_simp
  have "\<not> Option.is_none (fst (parseScript samplePkg L))"
    unfolding L_def by code_simp
  with e obtain s where h: "parseScript samplePkg L = (Some s, None)"
    by (cases "parseScript samplePkg L") (auto simp: Option.is_none_def)
  then have s: "s = the (fst (parseScript samplePkg L))" by simp
  have 2: "Actions s = [CaptureCommand (1, ''/bin/echo HELLO WORLD'')]"
    unfolding s L_def by code_simp
  have 3: "Preambles s CmdFrom = Some [FromCommand (0, ''local'')]"
    unfolding s L_def by code_simp
  have 4: "Sources sampleMethods (0, ''local'') \<noteq> []"
    by code_simp
  have 5: "Preambles s CmdWorkDir = Some [WorkdirCommand (0, ''path:/tmp/crashdir'')]"
    unfolding s L_def by code_simp
  have 6: "Execute sampleMethods (memSys sampleRun sampleFlat 100) s world0 = (Returned None, w')"
    unfolding s L_def w'_def by code_simp
  have n: "filepath_Join [Dir sampleMethods (0, ''path:/tmp/crashdir''),
        sampleFlat (GetCliString sampleMethods (1, ''/bin/echo HELLO WORLD'')) @ ''.txt'']
      = ''/tmp/crashdir/_bin_echo_HELLO_WORLD.txt''"
    by code_simp
  have r: "(case GetParsedCli sampleMethods (1, ''/bin/echo HELLO WORLD'') of
              (cliCmd, cliArgs) \<Rightarrow> sampleRun cliCmd cliArgs)
      = Inr (''HELLO WORLD'' @ [CHR 0x0A])"
    by code_simp
  from Execute_single_capture_one_file[OF h 2 3 4 5 6]
  have "nodeAt w' ''/tmp/crashdir/_bin_echo_HELLO_WORLD.txt''
                 = Some (FileNode (''HELLO WORLD'' @ [CHR 0x0A]))"
    unfolding n r by auto
  moreover have "filter (\<lambda>(k, n). n \<noteq> DirNode \<and> nodeAt world0 k \<noteq> Some n) (files w')
                 = [(''/tmp/crashdir/_bin_echo_HELLO_WORLD.txt'',
                     FileNode (''HELLO WORLD'' @ [CHR 0x0A]))]"
    unfolding w'_def by code_simp
  ultimately show ?thesis using h 6 unfolding L_def sampleSys_def by blast
qed

theorem Execute_setup_checks_in_order_witness:
  "Execute sampleMethods sampleSys
     \<lparr>Preambles = [CmdFrom \<mapsto> [FromCommand (0, ''local'')], CmdAs \<mapsto> []], Actions = []\<rparr> world0
     = (Panicked IndexOutOfRange, world0)
   \<and> Execute sampleMethods sampleSys
     \<lparr>Preambles = [CmdFrom \<mapsto> [FromCommand (0, ''local'')],
                   CmdAs \<mapsto> [AsCommand (0, ''userid:1000'')],
                   CmdWorkDir \<mapsto> [CopyCommand (1, ''/src'')]], Actions = []\<rparr> world0
     = (Panicked TypeAssertion, world0)
   \<and> Execute sampleMethods sampleSys
     \<lparr>Preambles = [CmdFrom \<mapsto> [FromCommand (0, ''local'')]], Actions = []\<rparr> world0
     = (Returned (Some (Errorf ''Script missing valid AS'')), world0)
   \<and> Execute sampleMethods sampleSys
     \<lparr>Preambles = [CmdFrom \<mapsto> [FromCommand (0, ''local'')],
                   CmdAs \<mapsto> [AsCommand (1, ''foo:barr'')],
                   CmdWorkDir \<mapsto> []], Actions = []\<rparr> world0
     = (Returned (Some (ErrOther ''user: unknown user foo'')), world0)"
proof -
  have g: "GetCredentials sampleMethods (0, ''userid:1000'') = Inr (1000, 100)"
    "GetCredentials sampleMethods (1, ''foo:barr'') = Inl (ErrOther ''user: unknown user foo'')"
    by (simp_all add: sampleMethods_def)
  show ?thesis
    using
      Execute_setup_checks_in_order[of
        "\<lparr>Preambles = [CmdFrom \<mapsto> [FromCommand (0, ''local'')], CmdAs \<mapsto> []], Actions = []\<rparr>"
        sampleMethods sampleSys world0]
      Execute_setup_checks_in_order[of
        "\<lparr>Preambles = [CmdFrom \<mapsto> [FromCommand (0, ''local'')],
                   CmdAs \<mapsto> [AsCommand (0, ''userid:1000'')],
                   CmdWorkDir \<mapsto> [CopyCommand (1, ''/src'')]], Actions = []\<rparr>"
        sampleMethods sampleSys world0]
      Execute_setup_checks_in_order[of
        "\<lparr>Preambles = [CmdFrom \<mapsto> [FromCommand (0, ''local'')]], Actions = []\<rparr>"
        sampleMethods sampleSys world0]
      Execute_setup_checks_in_order[of
        "\<lparr>Preambles = [CmdFrom \<mapsto> [FromCommand (0, ''local'')],
                   CmdAs \<mapsto> [AsCommand (1, ''foo:barr'')],
                   CmdWorkDir \<mapsto> []], Actions = []\<rparr>"
        sampleMethods sampleSys world0]
      g
    by (simp add: Cmd_defs)
qed

text \<open>
  Claim C10 as it was stated fails on a script that maps \<open>AS\<close> to an empty list and has
  no \<open>FROM\<close> entry: \<open>Execute\<close> returns the error of the missing \<open>FROM\<close> and does not
  panic.
\<close>

theorem Execute_absent_FROM_hides_empty_AS:
  "Execute sampleMethods sampleSys \<lparr>Preambles = [CmdAs \<mapsto> []], Actions = []\<rparr> world0
     = (Returned (Some (Errorf ''Script missing valid FROM'')), world0)"
  by (simp add: Execute_def setUp_def preamble0_def Cmd_defs)

text \<open>
  Claim C6 at a tree with two files of the same name: \<open>/src/a/f\<close> holds one byte and
  \<open>/src/b/f\<close> two. Every file goes to the working directory under its base name, so
  both go to \<open>/tmp/wd/f\<close>, which holds the two bytes of the second after the run; no
  file holds the byte of the first, the directories \<open>a\<close> and \<open>b\<close> stand beside
  \<open>src\<close> and not below it, and no error is logged.
\<close>

theorem copy_same_names_collide:
  "runScript [''WORKDIR path:/tmp/wd'', ''COPY /src''] world0
     = Some (Returned None,
             world0\<lparr>files := files world0
                       @ [(''/tmp/wd/src'', DirNode), (''/tmp/wd/a'', DirNode),
                          (''/tmp/wd/f'', FileNode ''22''), (''/tmp/wd/b'', DirNode),
                          (''/tmp/wd/c'', FileNode ''333'')]\<rparr>)"
  by code_simp

text \<open>
  Claim C5 at a path inside the working directory whose name starts with two dots: the
  path from \<open>/tmp/wd\<close> to \<open>/tmp/wd/..data\<close> is \<open>..data\<close>, which has the prefix \<open>..\<close>,
  so the argument is not rejected and its file \<open>x\<close> is copied to \<open>/tmp/wd/x\<close>. The
  argument \<open>/tmp/wd/sub\<close> is rejected and logged.
\<close>

theorem copy_dotdot_name_inside_workdir:
  "runScript [''WORKDIR path:/tmp/wd'', ''COPY /tmp/wd/..data /tmp/wd/sub''] world0
     = Some (Returned None,
             world0\<lparr>files := files world0 @ [(''/tmp/wd/x'', FileNode ''xx'')],
                    errors := [''COPY path /tmp/wd/sub cannot be relative to workdir /tmp/wd'']\<rparr>)"
  by code_simp

end
